theory Spec2Isabelle
  imports Complex_Main
begin

section \<open>Numbers and GLM vectors\<close>

text \<open>
  The program computes with C++ \<^verbatim>\<open>float\<close> and \<^verbatim>\<open>double\<close>. Both are modelled by
  \<^typ>\<open>real\<close>: rounding, infinities and NaN are not represented, and the conversions
  between the two types are the identity. Every constant of the source that is used below
  (0.12, 0.25, 0.5, 89, 45, ...) is read as the real number its literal denotes.

  GLM is an external library. Its functions are transcribed from GLM's headers
  (\<^verbatim>\<open>glm/detail/func_geometric.inl\<close>, \<^verbatim>\<open>glm/ext/matrix_transform.inl\<close>,
  \<^verbatim>\<open>glm/ext/matrix_clip_space.inl\<close>), with the default OpenGL conventions
  (right-handed, depth range -1 to 1).
\<close>

datatype vec3 = Vec3 (vx: real) (vy: real) (vz: real)

fun vec3_add :: "vec3 \<Rightarrow> vec3 \<Rightarrow> vec3" where
  "vec3_add (Vec3 a b c) (Vec3 x y z) = Vec3 (a + x) (b + y) (c + z)"

fun vec3_sub :: "vec3 \<Rightarrow> vec3 \<Rightarrow> vec3" where
  "vec3_sub (Vec3 a b c) (Vec3 x y z) = Vec3 (a - x) (b - y) (c - z)"

fun vec3_scale :: "vec3 \<Rightarrow> real \<Rightarrow> vec3" where
  "vec3_scale (Vec3 a b c) k = Vec3 (a * k) (b * k) (c * k)"

fun glm_dot :: "vec3 \<Rightarrow> vec3 \<Rightarrow> real" where
  "glm_dot (Vec3 a b c) (Vec3 x y z) = a * x + b * y + c * z"

fun glm_cross :: "vec3 \<Rightarrow> vec3 \<Rightarrow> vec3" where
  "glm_cross (Vec3 a b c) (Vec3 x y z) = Vec3 (b * z - y * c) (c * x - z * a) (a * y - x * b)"

text \<open>
  \<^verbatim>\<open>glm::normalize(v)\<close> is \<^verbatim>\<open>v * inversesqrt(dot(v, v))\<close>. On the zero vector the C++
  code yields NaN components; here division by zero is 0, so the model is faithful only
  on non-zero vectors.
\<close>

definition glm_normalize :: "vec3 \<Rightarrow> vec3" where
  "glm_normalize v = vec3_scale v (1 / sqrt (glm_dot v v))"

text \<open>\<^verbatim>\<open>glm::radians\<close> multiplies by the constant for pi / 180.\<close>

definition glm_radians :: "real \<Rightarrow> real" where
  "glm_radians degrees = degrees * (pi / 180)"

text \<open>\<^verbatim>\<open>glm::clamp(x, minVal, maxVal)\<close> is \<^verbatim>\<open>min(max(x, minVal), maxVal)\<close>.\<close>

definition glm_clamp :: "real \<Rightarrow> real \<Rightarrow> real \<Rightarrow> real" where
  "glm_clamp x minVal maxVal = min (max x minVal) maxVal"

section \<open>The globals of MainCode.cpp and the input callbacks\<close>

text \<open>
  The file-scope variables of MainCode.cpp, together with the function-local
  \<^verbatim>\<open>static bool pKeyPressed\<close> of \<^verbatim>\<open>processInput\<close> and the window's close flag.
\<close>

record globals =
  cameraPos :: vec3
  cameraFront :: vec3
  cameraUp :: vec3
  yaw :: real
  pitch :: real
  lastX :: real
  lastY :: real
  firstMouse :: bool
  deltaTime :: real
  lastFrame :: real
  movementSpeed :: real
  fov :: real
  useOrtho :: bool
  pKeyPressed :: bool
  windowShouldClose :: bool

definition initial_globals :: globals where
  "initial_globals =
     \<lparr> cameraPos = Vec3 0 2 10,
       cameraFront = Vec3 0 0 (-1),
       cameraUp = Vec3 0 1 0,
       yaw = -90,
       pitch = 0,
       lastX = 400,
       lastY = 300,
       firstMouse = True,
       deltaTime = 0,
       lastFrame = 0,
       movementSpeed = 4,
       fov = 45,
       useOrtho = False,
       pKeyPressed = False,
       windowShouldClose = False \<rparr>"

text \<open>
  The keyboard as \<^verbatim>\<open>glfwGetKey\<close> reports it: for each key the last state seen by
  \<^verbatim>\<open>glfwPollEvents\<close>, which is either pressed or released.
\<close>

datatype key_action = GLFW_RELEASE | GLFW_PRESS

datatype key =
    GLFW_KEY_ESCAPE | GLFW_KEY_W | GLFW_KEY_S | GLFW_KEY_A | GLFW_KEY_D
  | GLFW_KEY_Q | GLFW_KEY_E | GLFW_KEY_P

type_synonym window = "key \<Rightarrow> key_action"

text \<open>
  \<^verbatim>\<open>processInput\<close> is a sequence of independent \<^verbatim>\<open>if\<close> statements, one per key.
  Each statement is one function here, in the order of the source; \<open>speed\<close> is the
  local \<^verbatim>\<open>movementSpeed * deltaTime\<close> computed on entry.
\<close>

definition key_ESCAPE :: "window \<Rightarrow> globals \<Rightarrow> globals" where
  "key_ESCAPE glfwGetKey g =
     (if glfwGetKey GLFW_KEY_ESCAPE = GLFW_PRESS then g\<lparr>windowShouldClose := True\<rparr> else g)"

definition key_W :: "window \<Rightarrow> real \<Rightarrow> globals \<Rightarrow> globals" where
  "key_W glfwGetKey speed g =
     (if glfwGetKey GLFW_KEY_W = GLFW_PRESS
      then g\<lparr>cameraPos := vec3_add (cameraPos g) (vec3_scale (cameraFront g) speed)\<rparr>
      else g)"

definition key_S :: "window \<Rightarrow> real \<Rightarrow> globals \<Rightarrow> globals" where
  "key_S glfwGetKey speed g =
     (if glfwGetKey GLFW_KEY_S = GLFW_PRESS
      then g\<lparr>cameraPos := vec3_sub (cameraPos g) (vec3_scale (cameraFront g) speed)\<rparr>
      else g)"

definition key_A :: "window \<Rightarrow> real \<Rightarrow> globals \<Rightarrow> globals" where
  "key_A glfwGetKey speed g =
     (if glfwGetKey GLFW_KEY_A = GLFW_PRESS
      then g\<lparr>cameraPos := vec3_sub (cameraPos g)
             (vec3_scale (glm_normalize (glm_cross (cameraFront g) (cameraUp g))) speed)\<rparr>
      else g)"

definition key_D :: "window \<Rightarrow> real \<Rightarrow> globals \<Rightarrow> globals" where
  "key_D glfwGetKey speed g =
     (if glfwGetKey GLFW_KEY_D = GLFW_PRESS
      then g\<lparr>cameraPos := vec3_add (cameraPos g)
             (vec3_scale (glm_normalize (glm_cross (cameraFront g) (cameraUp g))) speed)\<rparr>
      else g)"

definition key_Q :: "window \<Rightarrow> real \<Rightarrow> globals \<Rightarrow> globals" where
  "key_Q glfwGetKey speed g =
     (if glfwGetKey GLFW_KEY_Q = GLFW_PRESS
      then g\<lparr>cameraPos := vec3_add (cameraPos g) (Vec3 0 speed 0)\<rparr>
      else g)"

definition key_E :: "window \<Rightarrow> real \<Rightarrow> globals \<Rightarrow> globals" where
  "key_E glfwGetKey speed g =
     (if glfwGetKey GLFW_KEY_E = GLFW_PRESS
      then g\<lparr>cameraPos := vec3_sub (cameraPos g) (Vec3 0 speed 0)\<rparr>
      else g)"

definition key_P_press :: "window \<Rightarrow> globals \<Rightarrow> globals" where
  "key_P_press glfwGetKey g =
     (if glfwGetKey GLFW_KEY_P = GLFW_PRESS \<and> \<not> pKeyPressed g
      then g\<lparr>useOrtho := \<not> useOrtho g, pKeyPressed := True\<rparr>
      else g)"

definition key_P_release :: "window \<Rightarrow> globals \<Rightarrow> globals" where
  "key_P_release glfwGetKey g =
     (if glfwGetKey GLFW_KEY_P = GLFW_RELEASE then g\<lparr>pKeyPressed := False\<rparr> else g)"

definition move_keys :: "window \<Rightarrow> real \<Rightarrow> globals \<Rightarrow> globals" where
  "move_keys glfwGetKey speed g =
     key_E glfwGetKey speed (key_Q glfwGetKey speed (key_D glfwGetKey speed
       (key_A glfwGetKey speed (key_S glfwGetKey speed (key_W glfwGetKey speed g)))))"

definition processInput :: "window \<Rightarrow> globals \<Rightarrow> globals" where
  "processInput glfwGetKey g =
     key_P_release glfwGetKey (key_P_press glfwGetKey
       (move_keys glfwGetKey (movementSpeed g * deltaTime g) (key_ESCAPE glfwGetKey g)))"

text \<open>
  \<^verbatim>\<open>mouse_callback\<close>, statement by statement: the first-event latch and the offsets, the
  angle update with the pitch clamp, and the new front vector.
\<close>

definition mouse_offsets :: "globals \<Rightarrow> real \<Rightarrow> real \<Rightarrow> real \<times> real" where
  "mouse_offsets g xpos ypos =
     (let g1 = (if firstMouse g then g\<lparr>lastX := xpos, lastY := ypos, firstMouse := False\<rparr> else g);
          xoffset = xpos - lastX g1;
          yoffset = lastY g1 - ypos;
          sensitivity = 0.12
      in (xoffset * sensitivity, yoffset * sensitivity))"

definition clamp_pitch :: "real \<Rightarrow> real" where
  "clamp_pitch p0 =
     (let p1 = (if p0 > 89 then 89 else p0)
      in (if p1 < -89 then -89 else p1))"

definition look_direction :: "real \<Rightarrow> real \<Rightarrow> vec3" where
  "look_direction yw ptch =
     glm_normalize (Vec3 (cos (glm_radians yw) * cos (glm_radians ptch))
                         (sin (glm_radians ptch))
                         (sin (glm_radians yw) * cos (glm_radians ptch)))"

definition mouse_callback :: "globals \<Rightarrow> real \<Rightarrow> real \<Rightarrow> globals" where
  "mouse_callback g xpos ypos =
     (let offs = mouse_offsets g xpos ypos;
          yaw' = yaw g + fst offs;
          pitch' = clamp_pitch (pitch g + snd offs)
      in g\<lparr>lastX := xpos, lastY := ypos, firstMouse := False,
            yaw := yaw', pitch := pitch',
            cameraFront := look_direction yaw' pitch'\<rparr>)"

definition scroll_callback :: "globals \<Rightarrow> real \<Rightarrow> real \<Rightarrow> globals" where
  "scroll_callback g0 xoffset yoffset =
    (let g1 = g0\<lparr>movementSpeed := movementSpeed g0 + yoffset * 0.25\<rparr>;
         g2 = g1\<lparr>movementSpeed := glm_clamp (movementSpeed g1) 0.5 10\<rparr>;
         g3 = g2\<lparr>fov := fov g2 - yoffset\<rparr>
     in g3\<lparr>fov := glm_clamp (fov g3) 1 45\<rparr>)"

text \<open>
  What happens to the globals while the main loop runs: at the top of an iteration the
  loop reads the clock, updates \<^verbatim>\<open>deltaTime\<close> and \<^verbatim>\<open>lastFrame\<close> and calls
  \<^verbatim>\<open>processInput\<close>; \<^verbatim>\<open>glfwPollEvents\<close> at the bottom delivers cursor and scroll events
  to the two callbacks. A run of the program is a sequence of these three events.
\<close>

datatype event =
    Frame window real
  | CursorPos real real
  | Scroll real real

definition begin_frame :: "window \<Rightarrow> real \<Rightarrow> globals \<Rightarrow> globals" where
  "begin_frame w currentFrame g =
     processInput w (g\<lparr>deltaTime := currentFrame - lastFrame g, lastFrame := currentFrame\<rparr>)"

fun step :: "globals \<Rightarrow> event \<Rightarrow> globals" where
  "step g (Frame w currentFrame) = begin_frame w currentFrame g"
| "step g (CursorPos xpos ypos) = mouse_callback g xpos ypos"
| "step g (Scroll xoffset yoffset) = scroll_callback g xoffset yoffset"

definition run :: "globals \<Rightarrow> event list \<Rightarrow> globals" where
  "run g evs = foldl step g evs"

section \<open>Scroll input is clamped\<close>

lemma scroll_callback_bounds:
  "1 / 2 \<le> movementSpeed (scroll_callback g x y) \<and> movementSpeed (scroll_callback g x y) \<le> 10
   \<and> 1 \<le> fov (scroll_callback g x y) \<and> fov (scroll_callback g x y) \<le> 45"
  by (simp add: scroll_callback_def glm_clamp_def Let_def)

lemma vec3_scale_zero: "vec3_add p (vec3_scale v 0) = p" "vec3_sub p (vec3_scale v 0) = p"
  by (cases p; cases v; simp)+

lemma vec3_zero: "vec3_add p (Vec3 0 0 0) = p" "vec3_sub p (Vec3 0 0 0) = p"
  by (cases p; simp)+

text \<open>Each key statement, written as one update of the camera position.\<close>

lemma key_W_eq:
  "key_W w sp g = g\<lparr>cameraPos := vec3_add (cameraPos g)
     (vec3_scale (cameraFront g) (if w GLFW_KEY_W = GLFW_PRESS then sp else 0))\<rparr>"
  by (simp add: key_W_def vec3_scale_zero)

lemma key_S_eq:
  "key_S w sp g = g\<lparr>cameraPos := vec3_sub (cameraPos g)
     (vec3_scale (cameraFront g) (if w GLFW_KEY_S = GLFW_PRESS then sp else 0))\<rparr>"
  by (simp add: key_S_def vec3_scale_zero)

lemma key_A_eq:
  "key_A w sp g = g\<lparr>cameraPos := vec3_sub (cameraPos g)
     (vec3_scale (glm_normalize (glm_cross (cameraFront g) (cameraUp g)))
        (if w GLFW_KEY_A = GLFW_PRESS then sp else 0))\<rparr>"
  by (simp add: key_A_def vec3_scale_zero)

lemma key_D_eq:
  "key_D w sp g = g\<lparr>cameraPos := vec3_add (cameraPos g)
     (vec3_scale (glm_normalize (glm_cross (cameraFront g) (cameraUp g)))
        (if w GLFW_KEY_D = GLFW_PRESS then sp else 0))\<rparr>"
  by (simp add: key_D_def vec3_scale_zero)

lemma key_Q_eq:
  "key_Q w sp g = g\<lparr>cameraPos := vec3_add (cameraPos g)
     (Vec3 0 (if w GLFW_KEY_Q = GLFW_PRESS then sp else 0) 0)\<rparr>"
  by (simp add: key_Q_def vec3_zero)

lemma key_E_eq:
  "key_E w sp g = g\<lparr>cameraPos := vec3_sub (cameraPos g)
     (Vec3 0 (if w GLFW_KEY_E = GLFW_PRESS then sp else 0) 0)\<rparr>"
  by (simp add: key_E_def vec3_zero)

definition strafe :: "globals \<Rightarrow> vec3" where
  "strafe g = glm_normalize (glm_cross (cameraFront g) (cameraUp g))"

definition moved_pos :: "window \<Rightarrow> real \<Rightarrow> globals \<Rightarrow> vec3" where
  "moved_pos w sp g =
     vec3_sub (vec3_add (vec3_add (vec3_sub (vec3_sub (vec3_add (cameraPos g)
       (vec3_scale (cameraFront g) (if w GLFW_KEY_W = GLFW_PRESS then sp else 0)))
       (vec3_scale (cameraFront g) (if w GLFW_KEY_S = GLFW_PRESS then sp else 0)))
       (vec3_scale (strafe g) (if w GLFW_KEY_A = GLFW_PRESS then sp else 0)))
       (vec3_scale (strafe g) (if w GLFW_KEY_D = GLFW_PRESS then sp else 0)))
       (Vec3 0 (if w GLFW_KEY_Q = GLFW_PRESS then sp else 0) 0))
       (Vec3 0 (if w GLFW_KEY_E = GLFW_PRESS then sp else 0) 0)"

lemma move_keys_eq: "move_keys w sp g = g\<lparr>cameraPos := moved_pos w sp g\<rparr>"
  unfolding move_keys_def moved_pos_def strafe_def
  by (simp add: key_W_eq key_S_eq key_A_eq key_D_eq key_Q_eq key_E_eq)

lemma key_ESCAPE_fields:
  "cameraPos (key_ESCAPE w g) = cameraPos g" "cameraFront (key_ESCAPE w g) = cameraFront g"
  "cameraUp (key_ESCAPE w g) = cameraUp g" "pitch (key_ESCAPE w g) = pitch g"
  "yaw (key_ESCAPE w g) = yaw g" "movementSpeed (key_ESCAPE w g) = movementSpeed g"
  "fov (key_ESCAPE w g) = fov g" "useOrtho (key_ESCAPE w g) = useOrtho g"
  "pKeyPressed (key_ESCAPE w g) = pKeyPressed g"
  by (simp_all add: key_ESCAPE_def)

lemma key_P_press_fields:
  "cameraPos (key_P_press w g) = cameraPos g" "cameraFront (key_P_press w g) = cameraFront g"
  "cameraUp (key_P_press w g) = cameraUp g" "pitch (key_P_press w g) = pitch g"
  "yaw (key_P_press w g) = yaw g" "movementSpeed (key_P_press w g) = movementSpeed g"
  "fov (key_P_press w g) = fov g"
  by (simp_all add: key_P_press_def)

lemma key_P_release_fields:
  "cameraPos (key_P_release w g) = cameraPos g" "cameraFront (key_P_release w g) = cameraFront g"
  "cameraUp (key_P_release w g) = cameraUp g" "pitch (key_P_release w g) = pitch g"
  "yaw (key_P_release w g) = yaw g" "movementSpeed (key_P_release w g) = movementSpeed g"
  "fov (key_P_release w g) = fov g" "useOrtho (key_P_release w g) = useOrtho g"
  by (simp_all add: key_P_release_def)

lemma strafe_key_ESCAPE: "strafe (key_ESCAPE w g) = strafe g"
  by (simp add: strafe_def key_ESCAPE_fields)

lemma moved_pos_key_ESCAPE: "moved_pos w sp (key_ESCAPE w' g) = moved_pos w sp g"
  by (simp add: moved_pos_def key_ESCAPE_fields strafe_key_ESCAPE)

lemma processInput_fields:
  "cameraPos (processInput w g) = moved_pos w (movementSpeed g * deltaTime g) g"
  "cameraFront (processInput w g) = cameraFront g"
  "cameraUp (processInput w g) = cameraUp g"
  "pitch (processInput w g) = pitch g"
  "yaw (processInput w g) = yaw g"
  "movementSpeed (processInput w g) = movementSpeed g"
  "fov (processInput w g) = fov g"
  by (simp_all add: processInput_def move_keys_eq key_P_release_fields key_P_press_fields
      key_ESCAPE_fields moved_pos_key_ESCAPE)

lemma processInput_speed_fov:
  "movementSpeed (processInput w g) = movementSpeed g \<and> fov (processInput w g) = fov g"
  by (simp add: processInput_fields)

lemma mouse_callback_speed_fov:
  "movementSpeed (mouse_callback g x y) = movementSpeed g \<and> fov (mouse_callback g x y) = fov g"
  by (simp add: mouse_callback_def Let_def)

definition scroll_inv :: "globals \<Rightarrow> bool" where
  "scroll_inv g = (1 / 2 \<le> movementSpeed g \<and> movementSpeed g \<le> 10 \<and> 1 \<le> fov g \<and> fov g \<le> 45)"

lemma step_scroll_inv: "scroll_inv g \<Longrightarrow> scroll_inv (step g e)"
proof (cases e)
  case (Frame w t)
  assume "scroll_inv g"
  then show ?thesis
    using Frame by (simp add: scroll_inv_def begin_frame_def processInput_speed_fov)
next
  case (CursorPos x y)
  assume "scroll_inv g"
  then show ?thesis
    using CursorPos by (simp add: scroll_inv_def mouse_callback_speed_fov)
next
  case (Scroll x y)
  show ?thesis
    using Scroll scroll_callback_bounds [of g x y] by (simp add: scroll_inv_def)
qed

lemma run_scroll_inv: "scroll_inv g \<Longrightarrow> scroll_inv (run g evs)"
  unfolding run_def by (induction evs arbitrary: g) (simp_all add: step_scroll_inv)

text \<open>
  Claim C10. Scroll input is clamped: a single call of \<^verbatim>\<open>scroll_callback\<close>, from any
  state and with any offsets, leaves the movement speed in [0.5, 10] and the field of view
  in [1, 45]; and starting from the initial values 4.0 and 45.0 both bounds hold after any
  sequence of scroll events, also when cursor events and frames are interleaved with them.
\<close>

theorem scroll_clamped:
  "1 / 2 \<le> movementSpeed (scroll_callback g xoffset yoffset)
   \<and> movementSpeed (scroll_callback g xoffset yoffset) \<le> 10
   \<and> 1 \<le> fov (scroll_callback g xoffset yoffset)
   \<and> fov (scroll_callback g xoffset yoffset) \<le> 45
   \<and> 1 / 2 \<le> movementSpeed (run initial_globals evs)
   \<and> movementSpeed (run initial_globals evs) \<le> 10
   \<and> 1 \<le> fov (run initial_globals evs)
   \<and> fov (run initial_globals evs) \<le> 45"
proof -
  have "scroll_inv initial_globals"
    by (simp add: scroll_inv_def initial_globals_def)
  then have "scroll_inv (run initial_globals evs)"
    by (rule run_scroll_inv)
  then show ?thesis
    using scroll_callback_bounds [of g xoffset yoffset] by (simp add: scroll_inv_def)
qed

section \<open>Mouse look\<close>

text \<open>
  The look direction as the camera formula gives it: yaw and pitch in degrees, the
  vector (cos yaw * cos pitch, sin pitch, sin yaw * cos pitch).
\<close>

definition euler_direction :: "real \<Rightarrow> real \<Rightarrow> vec3" where
  "euler_direction yaw_deg pitch_deg =
     Vec3 (cos (glm_radians yaw_deg) * cos (glm_radians pitch_deg))
          (sin (glm_radians pitch_deg))
          (sin (glm_radians yaw_deg) * cos (glm_radians pitch_deg))"

lemma unit_sphere_identity:
  fixes c s C S :: real
  shows "(c * C) * (c * C) + S * S + (s * C) * (s * C) = (c * c + s * s) * (C * C) + S * S"
  by (simp add: algebra_simps)

lemma euler_unit: "glm_dot (euler_direction y p) (euler_direction y p) = 1"
proof -
  let ?a = "glm_radians y" and ?b = "glm_radians p"
  have "glm_dot (euler_direction y p) (euler_direction y p)
        = (cos ?a * cos ?b) * (cos ?a * cos ?b) + sin ?b * sin ?b
          + (sin ?a * cos ?b) * (sin ?a * cos ?b)"
    by (simp add: euler_direction_def)
  also have "\<dots> = (cos ?a * cos ?a + sin ?a * sin ?a) * (cos ?b * cos ?b) + sin ?b * sin ?b"
    by (rule unit_sphere_identity)
  also have "\<dots> = 1"
    by (simp only: sin_cos_squared_add3 mult_1)
  finally show ?thesis .
qed

lemma glm_normalize_unit: "glm_dot v v = 1 \<Longrightarrow> glm_normalize v = v"
  by (cases v) (simp add: glm_normalize_def)

lemma look_direction_euler: "look_direction y p = euler_direction y p"
proof -
  have "look_direction y p = glm_normalize (euler_direction y p)"
    by (simp add: look_direction_def euler_direction_def)
  then show ?thesis
    by (simp add: glm_normalize_unit euler_unit)
qed

lemma clamp_pitch_bounds: "-89 \<le> clamp_pitch p \<and> clamp_pitch p \<le> 89"
  by (simp add: clamp_pitch_def Let_def)

lemma mouse_callback_fields:
  "yaw (mouse_callback g x y) = yaw g + fst (mouse_offsets g x y)"
  "pitch (mouse_callback g x y) = clamp_pitch (pitch g + snd (mouse_offsets g x y))"
  "cameraFront (mouse_callback g x y) =
     look_direction (yaw g + fst (mouse_offsets g x y))
                    (clamp_pitch (pitch g + snd (mouse_offsets g x y)))"
  "cameraUp (mouse_callback g x y) = cameraUp g"
  "cameraPos (mouse_callback g x y) = cameraPos g"
  "useOrtho (mouse_callback g x y) = useOrtho g"
  "pKeyPressed (mouse_callback g x y) = pKeyPressed g"
  by (simp_all add: mouse_callback_def Let_def)

lemma mouse_offsets_eq:
  "mouse_offsets g xpos ypos =
     ((xpos - (if firstMouse g then xpos else lastX g)) * 0.12,
      ((if firstMouse g then ypos else lastY g) - ypos) * 0.12)"
  by (simp add: mouse_offsets_def Let_def)

text \<open>
  Claim C2. After \<^verbatim>\<open>mouse_callback\<close> the camera front vector is the normalised Euler-angle
  look direction of the updated yaw and pitch, where the updated angles are the old ones
  plus 0.12 times the cursor movement (none on the first event), the pitch clamped to
  [-89, 89]. The Euler vector has length one, so the front vector is that vector itself.
\<close>

theorem mouse_callback_front:
  "cameraFront (mouse_callback g xpos ypos)
     = glm_normalize (euler_direction (yaw (mouse_callback g xpos ypos))
                                      (pitch (mouse_callback g xpos ypos)))
   \<and> cameraFront (mouse_callback g xpos ypos)
     = euler_direction (yaw (mouse_callback g xpos ypos)) (pitch (mouse_callback g xpos ypos))
   \<and> glm_dot (cameraFront (mouse_callback g xpos ypos))
              (cameraFront (mouse_callback g xpos ypos)) = 1
   \<and> yaw (mouse_callback g xpos ypos)
     = yaw g + (xpos - (if firstMouse g then xpos else lastX g)) * 0.12
   \<and> pitch (mouse_callback g xpos ypos)
     = clamp_pitch (pitch g + ((if firstMouse g then ypos else lastY g) - ypos) * 0.12)"
proof -
  let ?g = "mouse_callback g xpos ypos"
  have front: "cameraFront ?g = euler_direction (yaw ?g) (pitch ?g)"
    by (simp only: mouse_callback_fields look_direction_euler)
  have unit: "glm_dot (cameraFront ?g) (cameraFront ?g) = 1"
    by (simp only: front euler_unit)
  have norm: "cameraFront ?g = glm_normalize (euler_direction (yaw ?g) (pitch ?g))"
    using front unit by (simp add: glm_normalize_unit)
  have angles: "yaw ?g = yaw g + (xpos - (if firstMouse g then xpos else lastX g)) * 0.12"
    "pitch ?g = clamp_pitch (pitch g + ((if firstMouse g then ypos else lastY g) - ypos) * 0.12)"
    by (simp_all add: mouse_callback_fields mouse_offsets_eq)
  show ?thesis
    using front unit norm angles by blast
qed

section \<open>The pitch stays within 89 degrees\<close>

lemma cos_radians_pos:
  assumes "-89 \<le> p" "p \<le> 89"
  shows "0 < cos (glm_radians p)"
proof (rule cos_gt_zero_pi)
  have "p * (pi / 180) \<le> 89 * (pi / 180)"
    using assms by (intro mult_right_mono) simp_all
  also have "\<dots> < pi / 2"
    by simp
  finally show "glm_radians p < pi / 2"
    by (simp add: glm_radians_def)
  have "- (pi / 2) < (-89) * (pi / 180)"
    by simp
  also have "\<dots> \<le> p * (pi / 180)"
    using assms by (intro mult_right_mono) simp_all
  finally show "- (pi / 2) < glm_radians p"
    by (simp add: glm_radians_def)
qed

lemma euler_not_vertical:
  assumes "-89 \<le> p" "p \<le> 89"
  shows "vx (euler_direction y p) \<noteq> 0 \<or> vz (euler_direction y p) \<noteq> 0"
proof -
  have c: "cos (glm_radians p) \<noteq> 0"
    using cos_radians_pos [OF assms] by simp
  have "cos (glm_radians y) \<noteq> 0 \<or> sin (glm_radians y) \<noteq> 0"
    using sin_zero_abs_cos_one [of "glm_radians y"] by fastforce
  then show ?thesis
    using c by (simp add: euler_direction_def)
qed

lemma cross_world_up: "glm_cross f (Vec3 0 1 0) = Vec3 (- vz f) 0 (vx f)"
  by (cases f) simp

definition camera_inv :: "globals \<Rightarrow> bool" where
  "camera_inv g =
     (-89 \<le> pitch g \<and> pitch g \<le> 89 \<and> cameraUp g = Vec3 0 1 0
      \<and> glm_cross (cameraFront g) (Vec3 0 1 0) \<noteq> Vec3 0 0 0)"

lemma mouse_callback_not_vertical:
  "glm_cross (cameraFront (mouse_callback g x y)) (Vec3 0 1 0) \<noteq> Vec3 0 0 0"
proof -
  let ?p = "clamp_pitch (pitch g + snd (mouse_offsets g x y))"
  let ?y = "yaw g + fst (mouse_offsets g x y)"
  have "vx (euler_direction ?y ?p) \<noteq> 0 \<or> vz (euler_direction ?y ?p) \<noteq> 0"
    using clamp_pitch_bounds [of "pitch g + snd (mouse_offsets g x y)"]
    by (intro euler_not_vertical) simp_all
  then show ?thesis
    by (auto simp add: mouse_callback_fields look_direction_euler cross_world_up)
qed

lemma step_camera_inv: "camera_inv g \<Longrightarrow> camera_inv (step g e)"
proof (cases e)
  case (Frame w t)
  assume "camera_inv g"
  then show ?thesis
    using Frame by (simp add: camera_inv_def begin_frame_def processInput_fields)
next
  case (CursorPos x y)
  assume "camera_inv g"
  then show ?thesis
    using CursorPos mouse_callback_not_vertical [of g x y]
      clamp_pitch_bounds [of "pitch g + snd (mouse_offsets g x y)"]
    by (simp add: camera_inv_def mouse_callback_fields)
next
  case (Scroll x y)
  assume "camera_inv g"
  then show ?thesis
    using Scroll by (simp add: camera_inv_def scroll_callback_def Let_def)
qed

lemma run_camera_inv: "camera_inv g \<Longrightarrow> camera_inv (run g evs)"
  unfolding run_def by (induction evs arbitrary: g) (simp_all add: step_camera_inv)

lemma initial_camera_inv: "camera_inv initial_globals"
  by (simp add: camera_inv_def initial_globals_def)

text \<open>
  Claim C9. The pitch is bounded: a call of \<^verbatim>\<open>mouse_callback\<close> from any state leaves the
  pitch in [-89, 89] and a front vector that is not collinear with the world up vector
  (0, 1, 0); and in every state the program reaches from its initial globals, whatever the
  sequence of cursor events, scroll events and frames, the pitch is in [-89, 89] and the
  cross product of the front and up vectors is not the zero vector.
\<close>

theorem pitch_invariant:
  "-89 \<le> pitch (mouse_callback g xpos ypos)
   \<and> pitch (mouse_callback g xpos ypos) \<le> 89
   \<and> glm_cross (cameraFront (mouse_callback g xpos ypos)) (Vec3 0 1 0) \<noteq> Vec3 0 0 0
   \<and> -89 \<le> pitch (run initial_globals evs)
   \<and> pitch (run initial_globals evs) \<le> 89
   \<and> cameraUp (run initial_globals evs) = Vec3 0 1 0
   \<and> glm_cross (cameraFront (run initial_globals evs)) (cameraUp (run initial_globals evs))
       \<noteq> Vec3 0 0 0"
proof -
  have "camera_inv (run initial_globals evs)"
    using initial_camera_inv by (rule run_camera_inv)
  then show ?thesis
    using mouse_callback_not_vertical [of g xpos ypos]
      clamp_pitch_bounds [of "pitch g + snd (mouse_offsets g xpos ypos)"]
    by (simp add: camera_inv_def mouse_callback_fields)
qed

section \<open>Strafing with A and D\<close>

definition keys_W_A :: window where
  "keys_W_A k = (if k = GLFW_KEY_W \<or> k = GLFW_KEY_A then GLFW_PRESS else GLFW_RELEASE)"

definition keys_A :: window where
  "keys_A k = (if k = GLFW_KEY_A then GLFW_PRESS else GLFW_RELEASE)"

definition keys_D :: window where
  "keys_D k = (if k = GLFW_KEY_D then GLFW_PRESS else GLFW_RELEASE)"

text \<open>The initial globals in a frame that lasts one second.\<close>

definition one_second_frame :: globals where
  "one_second_frame = initial_globals\<lparr>deltaTime := 1\<rparr>"

lemma one_second_frame_strafe:
  "glm_normalize (glm_cross (cameraFront one_second_frame) (cameraUp one_second_frame))
     = Vec3 1 0 0"
  by (simp add: one_second_frame_def initial_globals_def glm_normalize_def)

lemma moved_pos_without_A:
  assumes "w GLFW_KEY_A = GLFW_PRESS"
  shows "moved_pos w sp g
         = vec3_sub (moved_pos (w(GLFW_KEY_A := GLFW_RELEASE)) sp g) (vec3_scale (strafe g) sp)"
  using assms unfolding moved_pos_def
  by (cases "cameraPos g"; cases "cameraFront g"; cases "strafe g") simp

lemma moved_pos_without_D:
  assumes "w GLFW_KEY_D = GLFW_PRESS"
  shows "moved_pos w sp g
         = vec3_add (moved_pos (w(GLFW_KEY_D := GLFW_RELEASE)) sp g) (vec3_scale (strafe g) sp)"
  using assms unfolding moved_pos_def
  by (cases "cameraPos g"; cases "cameraFront g"; cases "strafe g") simp

lemma moved_pos_only_A:
  assumes "w GLFW_KEY_A = GLFW_PRESS" "w GLFW_KEY_W = GLFW_RELEASE" "w GLFW_KEY_S = GLFW_RELEASE"
    "w GLFW_KEY_D = GLFW_RELEASE" "w GLFW_KEY_Q = GLFW_RELEASE" "w GLFW_KEY_E = GLFW_RELEASE"
  shows "moved_pos w sp g = vec3_sub (cameraPos g) (vec3_scale (strafe g) sp)"
  using assms unfolding moved_pos_def
  by (simp add: vec3_scale_zero vec3_zero)

lemma moved_pos_only_D:
  assumes "w GLFW_KEY_D = GLFW_PRESS" "w GLFW_KEY_W = GLFW_RELEASE" "w GLFW_KEY_S = GLFW_RELEASE"
    "w GLFW_KEY_A = GLFW_RELEASE" "w GLFW_KEY_Q = GLFW_RELEASE" "w GLFW_KEY_E = GLFW_RELEASE"
  shows "moved_pos w sp g = vec3_add (cameraPos g) (vec3_scale (strafe g) sp)"
  using assms unfolding moved_pos_def
  by (simp add: vec3_scale_zero vec3_zero)

text \<open>
  Claim C6, as stated, fails: with W held together with A, one frame of one second from
  the initial globals moves the camera from (0, 2, 10) to (-4, 2, 6), which is not the
  position (-4, 2, 10) that the strafe vector alone would give.
\<close>

theorem strafe_only_counterexample:
  "keys_W_A GLFW_KEY_A = GLFW_PRESS
   \<and> cameraPos (processInput keys_W_A one_second_frame) = Vec3 (-4) 2 6
   \<and> vec3_sub (cameraPos one_second_frame)
        (vec3_scale (glm_normalize (glm_cross (cameraFront one_second_frame)
                                              (cameraUp one_second_frame)))
                    (movementSpeed one_second_frame * deltaTime one_second_frame))
      = Vec3 (-4) 2 10
   \<and> cameraPos (processInput keys_W_A one_second_frame)
      \<noteq> vec3_sub (cameraPos one_second_frame)
           (vec3_scale (glm_normalize (glm_cross (cameraFront one_second_frame)
                                                 (cameraUp one_second_frame)))
                       (movementSpeed one_second_frame * deltaTime one_second_frame))"
proof -
  have pos: "cameraPos (processInput keys_W_A one_second_frame) = Vec3 (-4) 2 6"
    unfolding processInput_fields moved_pos_def strafe_def one_second_frame_strafe
    by (simp add: keys_W_A_def one_second_frame_def initial_globals_def)
  have claimed: "vec3_sub (cameraPos one_second_frame)
        (vec3_scale (glm_normalize (glm_cross (cameraFront one_second_frame)
                                              (cameraUp one_second_frame)))
                    (movementSpeed one_second_frame * deltaTime one_second_frame))
      = Vec3 (-4) 2 10"
    unfolding one_second_frame_strafe
    by (simp add: one_second_frame_def initial_globals_def)
  show ?thesis
    unfolding pos claimed by (simp add: keys_W_A_def)
qed

text \<open>
  Claim C6, amended. \<^verbatim>\<open>processInput\<close> never changes the front and up vectors. In a
  frame in which A (respectively D) is pressed, the camera ends where it would have ended
  with that key released and every other key as it is, minus (respectively plus)
  normalize(cross(cameraFront, cameraUp)) times movementSpeed * deltaTime; so when A
  (respectively D) is the only movement key pressed, the position moves by exactly minus
  (respectively plus) that vector. The front and up vectors are taken not collinear, which
  is where the model of \<^verbatim>\<open>glm::normalize\<close> is faithful and holds in every reachable state.
\<close>

theorem processInput_strafe:
  assumes "glm_cross (cameraFront g) (cameraUp g) \<noteq> Vec3 0 0 0"
  shows "cameraFront (processInput w g) = cameraFront g
   \<and> cameraUp (processInput w g) = cameraUp g
   \<and> (w GLFW_KEY_A = GLFW_PRESS \<longrightarrow>
        cameraPos (processInput w g)
        = vec3_sub (cameraPos (processInput (w(GLFW_KEY_A := GLFW_RELEASE)) g))
            (vec3_scale (glm_normalize (glm_cross (cameraFront g) (cameraUp g)))
                        (movementSpeed g * deltaTime g)))
   \<and> (w GLFW_KEY_D = GLFW_PRESS \<longrightarrow>
        cameraPos (processInput w g)
        = vec3_add (cameraPos (processInput (w(GLFW_KEY_D := GLFW_RELEASE)) g))
            (vec3_scale (glm_normalize (glm_cross (cameraFront g) (cameraUp g)))
                        (movementSpeed g * deltaTime g)))
   \<and> (w GLFW_KEY_A = GLFW_PRESS \<and> w GLFW_KEY_W = GLFW_RELEASE \<and> w GLFW_KEY_S = GLFW_RELEASE
        \<and> w GLFW_KEY_D = GLFW_RELEASE \<and> w GLFW_KEY_Q = GLFW_RELEASE
        \<and> w GLFW_KEY_E = GLFW_RELEASE \<longrightarrow>
        cameraPos (processInput w g)
        = vec3_sub (cameraPos g)
            (vec3_scale (glm_normalize (glm_cross (cameraFront g) (cameraUp g)))
                        (movementSpeed g * deltaTime g)))
   \<and> (w GLFW_KEY_D = GLFW_PRESS \<and> w GLFW_KEY_W = GLFW_RELEASE \<and> w GLFW_KEY_S = GLFW_RELEASE
        \<and> w GLFW_KEY_A = GLFW_RELEASE \<and> w GLFW_KEY_Q = GLFW_RELEASE
        \<and> w GLFW_KEY_E = GLFW_RELEASE \<longrightarrow>
        cameraPos (processInput w g)
        = vec3_add (cameraPos g)
            (vec3_scale (glm_normalize (glm_cross (cameraFront g) (cameraUp g)))
                        (movementSpeed g * deltaTime g)))"
  using moved_pos_without_A [of w "movementSpeed g * deltaTime g" g]
    moved_pos_without_D [of w "movementSpeed g * deltaTime g" g]
    moved_pos_only_A [of w "movementSpeed g * deltaTime g" g]
    moved_pos_only_D [of w "movementSpeed g * deltaTime g" g]
  by (simp add: processInput_fields strafe_def)

theorem processInput_strafe_witness:
  "glm_cross (cameraFront one_second_frame) (cameraUp one_second_frame) \<noteq> Vec3 0 0 0
   \<and> keys_A GLFW_KEY_A = GLFW_PRESS
   \<and> cameraPos (processInput keys_A one_second_frame) = Vec3 (-4) 2 10
   \<and> keys_D GLFW_KEY_D = GLFW_PRESS
   \<and> cameraPos (processInput keys_D one_second_frame) = Vec3 4 2 10"
proof -
  have ne: "glm_cross (cameraFront one_second_frame) (cameraUp one_second_frame) \<noteq> Vec3 0 0 0"
    by (simp add: one_second_frame_def initial_globals_def)
  have pa: "keys_A GLFW_KEY_A = GLFW_PRESS \<and> keys_A GLFW_KEY_W = GLFW_RELEASE
      \<and> keys_A GLFW_KEY_S = GLFW_RELEASE \<and> keys_A GLFW_KEY_D = GLFW_RELEASE
      \<and> keys_A GLFW_KEY_Q = GLFW_RELEASE \<and> keys_A GLFW_KEY_E = GLFW_RELEASE"
    by (simp add: keys_A_def)
  have pd: "keys_D GLFW_KEY_D = GLFW_PRESS \<and> keys_D GLFW_KEY_W = GLFW_RELEASE
      \<and> keys_D GLFW_KEY_S = GLFW_RELEASE \<and> keys_D GLFW_KEY_A = GLFW_RELEASE
      \<and> keys_D GLFW_KEY_Q = GLFW_RELEASE \<and> keys_D GLFW_KEY_E = GLFW_RELEASE"
    by (simp add: keys_D_def)
  have "cameraPos (processInput keys_A one_second_frame)
        = vec3_sub (cameraPos one_second_frame)
            (vec3_scale (glm_normalize (glm_cross (cameraFront one_second_frame)
                                                  (cameraUp one_second_frame)))
                        (movementSpeed one_second_frame * deltaTime one_second_frame))"
    using processInput_strafe [OF ne, of keys_A] pa by blast
  then have a: "cameraPos (processInput keys_A one_second_frame) = Vec3 (-4) 2 10"
    unfolding one_second_frame_strafe
    by (simp add: one_second_frame_def initial_globals_def)
  have "cameraPos (processInput keys_D one_second_frame)
        = vec3_add (cameraPos one_second_frame)
            (vec3_scale (glm_normalize (glm_cross (cameraFront one_second_frame)
                                                  (cameraUp one_second_frame)))
                        (movementSpeed one_second_frame * deltaTime one_second_frame))"
    using processInput_strafe [OF ne, of keys_D] pd by blast
  then have d: "cameraPos (processInput keys_D one_second_frame) = Vec3 4 2 10"
    unfolding one_second_frame_strafe
    by (simp add: one_second_frame_def initial_globals_def)
  show ?thesis
    using ne a d pa pd by blast
qed

section \<open>GLM matrices\<close>

text \<open>
  A \<^verbatim>\<open>glm::mat4\<close> is four columns \<^verbatim>\<open>m[0]\<close>, ..., \<^verbatim>\<open>m[3]\<close>, each a \<^verbatim>\<open>glm::vec4\<close>;
  \<^verbatim>\<open>m[i][j]\<close> is component \<open>j\<close> of column \<open>i\<close>.
\<close>

datatype vec4 = Vec4 real real real real

datatype mat4 = Mat4 vec4 vec4 vec4 vec4

fun vec4_add :: "vec4 \<Rightarrow> vec4 \<Rightarrow> vec4" where
  "vec4_add (Vec4 a b c d) (Vec4 x y z w) = Vec4 (a + x) (b + y) (c + z) (d + w)"

fun vec4_scale :: "vec4 \<Rightarrow> real \<Rightarrow> vec4" where
  "vec4_scale (Vec4 a b c d) k = Vec4 (a * k) (b * k) (c * k) (d * k)"

definition mat4_identity :: mat4 where
  "mat4_identity = Mat4 (Vec4 1 0 0 0) (Vec4 0 1 0 0) (Vec4 0 0 1 0) (Vec4 0 0 0 1)"

text \<open>\<^verbatim>\<open>m * v\<close>: the linear combination of the columns of \<open>m\<close> with the components of \<open>v\<close>.\<close>

fun mat4_mul_vec4 :: "mat4 \<Rightarrow> vec4 \<Rightarrow> vec4" where
  "mat4_mul_vec4 (Mat4 m0 m1 m2 m3) (Vec4 x y z w) =
     vec4_add (vec4_add (vec4_scale m0 x) (vec4_scale m1 y))
              (vec4_add (vec4_scale m2 z) (vec4_scale m3 w))"

text \<open>\<^verbatim>\<open>m1 * m2\<close>: column \<open>j\<close> of the product is \<open>m1\<close> applied to column \<open>j\<close> of \<open>m2\<close>.\<close>

fun mat4_mul :: "mat4 \<Rightarrow> mat4 \<Rightarrow> mat4" where
  "mat4_mul m1 (Mat4 b0 b1 b2 b3) =
     Mat4 (mat4_mul_vec4 m1 b0) (mat4_mul_vec4 m1 b1) (mat4_mul_vec4 m1 b2) (mat4_mul_vec4 m1 b3)"

text \<open>
  \<^verbatim>\<open>glm::translate(m, v)\<close>, \<^verbatim>\<open>glm::rotate(m, angle, v)\<close> and \<^verbatim>\<open>glm::scale(m, v)\<close> of
  \<^verbatim>\<open>glm/ext/matrix_transform.inl\<close>; the one-argument forms of \<^verbatim>\<open>glm/gtx/transform.hpp\<close>
  that the program calls apply them to the identity matrix.
\<close>

fun translate_m :: "mat4 \<Rightarrow> vec3 \<Rightarrow> mat4" where
  "translate_m (Mat4 m0 m1 m2 m3) (Vec3 x y z) =
     Mat4 m0 m1 m2
       (vec4_add (vec4_add (vec4_add (vec4_scale m0 x) (vec4_scale m1 y)) (vec4_scale m2 z)) m3)"

fun rotate_axis :: "mat4 \<Rightarrow> real \<Rightarrow> real \<Rightarrow> vec3 \<Rightarrow> mat4" where
  "rotate_axis (Mat4 m0 m1 m2 m3) c s (Vec3 ax ay az) =
     (let t0 = (1 - c) * ax; t1 = (1 - c) * ay; t2 = (1 - c) * az;
          r00 = c + t0 * ax;
          r01 = t0 * ay + s * az;
          r02 = t0 * az - s * ay;
          r10 = t1 * ax - s * az;
          r11 = c + t1 * ay;
          r12 = t1 * az + s * ax;
          r20 = t2 * ax + s * ay;
          r21 = t2 * ay - s * ax;
          r22 = c + t2 * az
      in Mat4 (vec4_add (vec4_add (vec4_scale m0 r00) (vec4_scale m1 r01)) (vec4_scale m2 r02))
              (vec4_add (vec4_add (vec4_scale m0 r10) (vec4_scale m1 r11)) (vec4_scale m2 r12))
              (vec4_add (vec4_add (vec4_scale m0 r20) (vec4_scale m1 r21)) (vec4_scale m2 r22))
              m3)"

definition rotate_m :: "mat4 \<Rightarrow> real \<Rightarrow> vec3 \<Rightarrow> mat4" where
  "rotate_m m angle v = rotate_axis m (cos angle) (sin angle) (glm_normalize v)"

fun scale_m :: "mat4 \<Rightarrow> vec3 \<Rightarrow> mat4" where
  "scale_m (Mat4 m0 m1 m2 m3) (Vec3 x y z) =
     Mat4 (vec4_scale m0 x) (vec4_scale m1 y) (vec4_scale m2 z) m3"

definition glm_translate :: "vec3 \<Rightarrow> mat4" where
  "glm_translate v = translate_m mat4_identity v"

definition glm_rotate :: "real \<Rightarrow> vec3 \<Rightarrow> mat4" where
  "glm_rotate angle v = rotate_m mat4_identity angle v"

definition glm_scale :: "vec3 \<Rightarrow> mat4" where
  "glm_scale v = scale_m mat4_identity v"

text \<open>
  \<^verbatim>\<open>glm::ortho\<close>, \<^verbatim>\<open>glm::perspective\<close> (\<^verbatim>\<open>glm/ext/matrix_clip_space.inl\<close>) and
  \<^verbatim>\<open>glm::lookAt\<close>, in their right-handed forms with depth range -1 to 1.
\<close>

definition glm_ortho :: "real \<Rightarrow> real \<Rightarrow> real \<Rightarrow> real \<Rightarrow> real \<Rightarrow> real \<Rightarrow> mat4" where
  "glm_ortho l r b t zNear zFar =
     Mat4 (Vec4 (2 / (r - l)) 0 0 0)
          (Vec4 0 (2 / (t - b)) 0 0)
          (Vec4 0 0 (- (2 / (zFar - zNear))) 0)
          (Vec4 (- ((r + l) / (r - l))) (- ((t + b) / (t - b)))
                (- ((zFar + zNear) / (zFar - zNear))) 1)"

definition glm_perspective :: "real \<Rightarrow> real \<Rightarrow> real \<Rightarrow> real \<Rightarrow> mat4" where
  "glm_perspective fovy aspect zNear zFar =
     (let tanHalfFovy = tan (fovy / 2)
      in Mat4 (Vec4 (1 / (aspect * tanHalfFovy)) 0 0 0)
              (Vec4 0 (1 / tanHalfFovy) 0 0)
              (Vec4 0 0 (- ((zFar + zNear) / (zFar - zNear))) (- 1))
              (Vec4 0 0 (- ((2 * zFar * zNear) / (zFar - zNear))) 0))"

definition glm_lookAt :: "vec3 \<Rightarrow> vec3 \<Rightarrow> vec3 \<Rightarrow> mat4" where
  "glm_lookAt eye center up =
     (let f = glm_normalize (vec3_sub center eye);
          s = glm_normalize (glm_cross f up);
          u = glm_cross s f
      in Mat4 (Vec4 (vx s) (vx u) (- vx f) 0)
              (Vec4 (vy s) (vy u) (- vy f) 0)
              (Vec4 (vz s) (vz u) (- vz f) 0)
              (Vec4 (- glm_dot s eye) (- glm_dot u eye) (glm_dot f eye) 1))"

text \<open>
  The textbook point transformations that the model matrix is meant to compose: scaling
  per axis, rotation about a coordinate axis by an angle in radians, and translation.
\<close>

fun scale_point :: "vec3 \<Rightarrow> vec3 \<Rightarrow> vec3" where
  "scale_point (Vec3 sx sy sz) (Vec3 x y z) = Vec3 (sx * x) (sy * y) (sz * z)"

fun rotate_about_x :: "real \<Rightarrow> vec3 \<Rightarrow> vec3" where
  "rotate_about_x a (Vec3 x y z) = Vec3 x (y * cos a - z * sin a) (y * sin a + z * cos a)"

fun rotate_about_y :: "real \<Rightarrow> vec3 \<Rightarrow> vec3" where
  "rotate_about_y a (Vec3 x y z) = Vec3 (x * cos a + z * sin a) y (z * cos a - x * sin a)"

fun rotate_about_z :: "real \<Rightarrow> vec3 \<Rightarrow> vec3" where
  "rotate_about_z a (Vec3 x y z) = Vec3 (x * cos a - y * sin a) (x * sin a + y * cos a) z"

definition translate_point :: "vec3 \<Rightarrow> vec3 \<Rightarrow> vec3" where
  "translate_point t p = vec3_add p t"

text \<open>A point in homogeneous coordinates, as the vertex shader passes it: w = 1.\<close>

fun homogeneous :: "vec3 \<Rightarrow> vec4" where
  "homogeneous (Vec3 x y z) = Vec4 x y z 1"

definition transform_point :: "vec3 \<Rightarrow> real \<Rightarrow> real \<Rightarrow> real \<Rightarrow> vec3 \<Rightarrow> vec3 \<Rightarrow> vec3" where
  "transform_point scaleXYZ xdeg ydeg zdeg positionXYZ p =
     translate_point positionXYZ
       (rotate_about_x (glm_radians xdeg)
         (rotate_about_y (glm_radians ydeg)
           (rotate_about_z (glm_radians zdeg)
             (scale_point scaleXYZ p))))"

lemma mat4_mul_vec4_assoc:
  "mat4_mul_vec4 (mat4_mul a b) v = mat4_mul_vec4 a (mat4_mul_vec4 b v)"
proof -
  obtain a0 a1 a2 a3 where a: "a = Mat4 a0 a1 a2 a3" by (cases a)
  obtain b0 b1 b2 b3 where b: "b = Mat4 b0 b1 b2 b3" by (cases b)
  obtain x y z w where v: "v = Vec4 x y z w" by (cases v)
  show ?thesis
    unfolding a b v
    by (cases a0; cases a1; cases a2; cases a3; cases b0; cases b1; cases b2; cases b3)
       (simp add: algebra_simps)
qed

lemma glm_translate_point:
  "mat4_mul_vec4 (glm_translate t) (homogeneous p) = homogeneous (translate_point t p)"
  by (cases t; cases p) (simp add: glm_translate_def mat4_identity_def translate_point_def)

lemma glm_scale_point:
  "mat4_mul_vec4 (glm_scale sc) (homogeneous p) = homogeneous (scale_point sc p)"
  by (cases sc; cases p) (simp add: glm_scale_def mat4_identity_def)

lemma glm_rotate_x_point:
  "mat4_mul_vec4 (glm_rotate a (Vec3 1 0 0)) (homogeneous p) = homogeneous (rotate_about_x a p)"
  by (cases p)
     (simp add: glm_rotate_def rotate_m_def glm_normalize_def mat4_identity_def Let_def)

lemma glm_rotate_y_point:
  "mat4_mul_vec4 (glm_rotate a (Vec3 0 1 0)) (homogeneous p) = homogeneous (rotate_about_y a p)"
  by (cases p)
     (simp add: glm_rotate_def rotate_m_def glm_normalize_def mat4_identity_def Let_def)

lemma glm_rotate_z_point:
  "mat4_mul_vec4 (glm_rotate a (Vec3 0 0 1)) (homogeneous p) = homogeneous (rotate_about_z a p)"
  by (cases p)
     (simp add: glm_rotate_def rotate_m_def glm_normalize_def mat4_identity_def Let_def)

definition model_matrix :: "vec3 \<Rightarrow> real \<Rightarrow> real \<Rightarrow> real \<Rightarrow> vec3 \<Rightarrow> mat4" where
  "model_matrix scaleXYZ XrotationDegrees YrotationDegrees ZrotationDegrees positionXYZ =
     mat4_mul (mat4_mul (mat4_mul (mat4_mul
       (glm_translate positionXYZ)
       (glm_rotate (glm_radians XrotationDegrees) (Vec3 1 0 0)))
       (glm_rotate (glm_radians YrotationDegrees) (Vec3 0 1 0)))
       (glm_rotate (glm_radians ZrotationDegrees) (Vec3 0 0 1)))
       (glm_scale scaleXYZ)"

lemma model_matrix_point:
  "mat4_mul_vec4 (model_matrix sc xd yd zd pos) (homogeneous p)
     = homogeneous (transform_point sc xd yd zd pos p)"
  by (simp only: model_matrix_def transform_point_def mat4_mul_vec4_assoc glm_scale_point
      glm_rotate_z_point glm_rotate_y_point glm_rotate_x_point glm_translate_point)

section \<open>The scene manager\<close>

text \<open>
  The classes \<^verbatim>\<open>ShaderManager\<close> and \<^verbatim>\<open>ShapeMeshes\<close>, the OpenGL driver and the image
  decoder are outside the source. A call into one of them is recorded as a value of type
  \<open>call\<close>, in the order the program makes it; what the program itself computes (the
  arguments of the calls, the fields of the scene manager) is modelled in full. Console
  output is not recorded.
\<close>

datatype shape = PlaneMesh | ConeMesh | TorusMesh | BoxMesh

datatype uniform_value =
    Mat4Value mat4
  | IntValue int
  | BoolValue bool
  | Sampler2DValue int
  | Vec2Value real real
  | Vec3Value vec3
  | FloatValue real

datatype tex_parameter =
    GL_TEXTURE_WRAP_S | GL_TEXTURE_WRAP_T | GL_TEXTURE_MIN_FILTER | GL_TEXTURE_MAG_FILTER

datatype tex_setting = GL_REPEAT | GL_LINEAR

datatype tex_format = GL_RGB8 | GL_RGBA8

text \<open>
  \<open>ShaderSet name v\<close> stands for \<^verbatim>\<open>m_pShaderManager->set...Value(name, v)\<close>, the
  constructor of \<open>v\<close> telling which of the setters it is; \<open>Load\<close> and \<open>Draw\<close> stand
  for \<^verbatim>\<open>m_basicMeshes->Load...Mesh()\<close> and \<^verbatim>\<open>m_basicMeshes->Draw...Mesh()\<close>. The other
  constructors carry the name of the function called; texture calls always have the
  target \<^verbatim>\<open>GL_TEXTURE_2D\<close>, \<open>glActiveTexture i\<close> selects \<^verbatim>\<open>GL_TEXTURE0 + i\<close>, and
  \<open>glEnable_DEPTH_TEST\<close> and \<open>glClear_COLOR_DEPTH\<close> are the two calls of the main loop
  with their constant arguments.
\<close>

datatype call =
    ShaderSet string uniform_value
  | Load shape
  | Draw shape
  | stbi_set_flip_vertically_on_load bool
  | stbi_image_free
  | glGenTextures nat
  | glBindTexture nat
  | glTexParameteri tex_parameter tex_setting
  | glTexImage2D tex_format int int
  | glGenerateMipmap
  | glActiveTexture nat
  | glDeleteTextures nat
  | delete_ShapeMeshes
  | delete_ViewManager
  | delete_ShaderManager
  | glEnable_DEPTH_TEST
  | glClearColor real real real real
  | glClear_COLOR_DEPTH
  | glfwSwapBuffers

datatype pointer = NULL | Allocated

text \<open>
  The structs \<^verbatim>\<open>TEXTURE_INFO\<close> and \<^verbatim>\<open>OBJECT_MATERIAL\<close> and the members of
  \<^verbatim>\<open>SceneManager\<close> are declared in SceneManager.h, which is outside the source; the
  fields are the ones the code reads and writes. The tag of a material is called
  \<open>material_tag\<close> here, since two records cannot share a field name. The array
  \<^verbatim>\<open>m_textureIDs\<close> is a list whose length is the declared size of the array.
\<close>

record TEXTURE_INFO =
  ID :: nat
  tag :: string

record OBJECT_MATERIAL =
  ambientColor :: vec3
  ambientStrength :: real
  diffuseColor :: vec3
  specularColor :: vec3
  shininess :: real
  material_tag :: string

record SceneManager =
  m_pShaderManager :: pointer
  m_basicMeshes :: pointer
  m_textureIDs :: "TEXTURE_INFO list"
  m_loadedTextures :: int
  m_objectMaterials :: "OBJECT_MATERIAL list"

definition g_ModelName :: string where "g_ModelName = ''model''"
definition g_TextureValueName :: string where "g_TextureValueName = ''objectTexture''"
definition g_UseTextureName :: string where "g_UseTextureName = ''bUseTexture''"

text \<open>
  A member function takes the object and returns the calls it made and the object as it
  leaves it, or \<open>None\<close> where the C++ code has undefined behaviour: a call through a null
  pointer, or an index outside \<^verbatim>\<open>m_textureIDs\<close>.
\<close>

type_synonym member_function = "SceneManager \<Rightarrow> (call list \<times> SceneManager) option"

fun exec :: "member_function list \<Rightarrow> member_function" where
  "exec [] s = Some ([], s)"
| "exec (m # ms) s =
     (case m s of
        None \<Rightarrow> None
      | Some (out1, s1) \<Rightarrow>
          (case exec ms s1 of
             None \<Rightarrow> None
           | Some (out2, s2) \<Rightarrow> Some (out1 @ out2, s2)))"

text \<open>\<^verbatim>\<open>if (m_pShaderManager) m_pShaderManager->...\<close>\<close>

definition if_shader :: "call list \<Rightarrow> member_function" where
  "if_shader cs s = Some (if m_pShaderManager s = NULL then [] else cs, s)"

text \<open>\<^verbatim>\<open>m_pShaderManager->...\<close> and \<^verbatim>\<open>m_basicMeshes->...\<close> without a check.\<close>

definition via_shader :: "call list \<Rightarrow> member_function" where
  "via_shader cs s = (if m_pShaderManager s = NULL then None else Some (cs, s))"

definition via_meshes :: "call list \<Rightarrow> member_function" where
  "via_meshes cs s = (if m_basicMeshes s = NULL then None else Some (cs, s))"

subsection \<open>Textures\<close>

text \<open>
  What the decoder and the driver answer: \<^verbatim>\<open>stbi_load\<close> returns no image or an image
  with its width, height and channel count, and \<^verbatim>\<open>glGenTextures\<close> writes a texture name.
  Both are parameters, given per file that is being loaded.
\<close>

record stbi_image =
  width :: int
  height :: int
  colorChannels :: int

record loader =
  stbi_load :: "string \<Rightarrow> stbi_image option"
  new_texture_name :: "string \<Rightarrow> nat"

text \<open>
  The tail of \<^verbatim>\<open>CreateGLTexture\<close> after a successful \<^verbatim>\<open>glTexImage2D\<close>: mipmaps, freeing
  the image, unbinding, and the entry written at index \<^verbatim>\<open>m_loadedTextures\<close>.
\<close>

definition register_texture ::
    "call list \<Rightarrow> nat \<Rightarrow> string \<Rightarrow> SceneManager \<Rightarrow> (bool \<times> call list \<times> SceneManager) option" where
  "register_texture uploaded textureID tg s =
     (let i = m_loadedTextures s
      in if 0 \<le> i \<and> nat i < length (m_textureIDs s)
         then Some (True,
                uploaded @ [glGenerateMipmap, stbi_image_free, glBindTexture 0],
                s\<lparr>m_textureIDs := (m_textureIDs s)[nat i := \<lparr>ID = textureID, tag = tg\<rparr>],
                  m_loadedTextures := i + 1\<rparr>)
         else None)"

definition CreateGLTexture ::
    "loader \<Rightarrow> string \<Rightarrow> string \<Rightarrow> SceneManager \<Rightarrow> (bool \<times> call list \<times> SceneManager) option" where
  "CreateGLTexture env filename tg s =
     (case stbi_load env filename of
        Some img \<Rightarrow>
          (let textureID = new_texture_name env filename;
               setup = [stbi_set_flip_vertically_on_load True,
                        glGenTextures textureID,
                        glBindTexture textureID,
                        glTexParameteri GL_TEXTURE_WRAP_S GL_REPEAT,
                        glTexParameteri GL_TEXTURE_WRAP_T GL_REPEAT,
                        glTexParameteri GL_TEXTURE_MIN_FILTER GL_LINEAR,
                        glTexParameteri GL_TEXTURE_MAG_FILTER GL_LINEAR]
           in if colorChannels img = 3
              then register_texture (setup @ [glTexImage2D GL_RGB8 (width img) (height img)])
                     textureID tg s
              else if colorChannels img = 4
              then register_texture (setup @ [glTexImage2D GL_RGBA8 (width img) (height img)])
                     textureID tg s
              else Some (False, setup @ [stbi_image_free], s))
      | None \<Rightarrow> Some (False, [stbi_set_flip_vertically_on_load True], s))"

text \<open>
  The loops over \<^verbatim>\<open>i = 0, ..., m_loadedTextures - 1\<close>: the indices are given as a list,
  and an index outside the array ends the run with \<open>None\<close>.
\<close>

fun bind_loop :: "TEXTURE_INFO list \<Rightarrow> nat list \<Rightarrow> call list option" where
  "bind_loop arr [] = Some []"
| "bind_loop arr (i # rest) =
     (if i < length arr
      then (case bind_loop arr rest of
              None \<Rightarrow> None
            | Some cs \<Rightarrow> Some ([glActiveTexture i, glBindTexture (ID (arr ! i))] @ cs))
      else None)"

definition BindGLTextures :: member_function where
  "BindGLTextures s =
     (case bind_loop (m_textureIDs s) [0..<nat (m_loadedTextures s)] of
        None \<Rightarrow> None
      | Some cs \<Rightarrow> Some (cs, s))"

fun destroy_loop :: "TEXTURE_INFO list \<Rightarrow> nat list \<Rightarrow> call list option" where
  "destroy_loop arr [] = Some []"
| "destroy_loop arr (i # rest) =
     (if i < length arr
      then (case destroy_loop arr rest of
              None \<Rightarrow> None
            | Some cs \<Rightarrow> Some (glDeleteTextures (ID (arr ! i)) # cs))
      else None)"

definition DestroyGLTextures :: member_function where
  "DestroyGLTextures s =
     (case destroy_loop (m_textureIDs s) [0..<nat (m_loadedTextures s)] of
        None \<Rightarrow> None
      | Some cs \<Rightarrow> Some (cs, s\<lparr>m_loadedTextures := 0\<rparr>))"

fun slot_loop :: "TEXTURE_INFO list \<Rightarrow> string \<Rightarrow> nat list \<Rightarrow> int option" where
  "slot_loop arr tg [] = Some (-1)"
| "slot_loop arr tg (i # rest) =
     (if i < length arr
      then (if tag (arr ! i) = tg then Some (int i) else slot_loop arr tg rest)
      else None)"

definition FindTextureSlot :: "SceneManager \<Rightarrow> string \<Rightarrow> int option" where
  "FindTextureSlot s tg = slot_loop (m_textureIDs s) tg [0..<nat (m_loadedTextures s)]"

subsection \<open>Shader state for the next draw\<close>

definition SetTransformations :: "vec3 \<Rightarrow> real \<Rightarrow> real \<Rightarrow> real \<Rightarrow> vec3 \<Rightarrow> member_function" where
  "SetTransformations scaleXYZ XrotationDegrees YrotationDegrees ZrotationDegrees positionXYZ =
     (let modelView =
            mat4_mul (mat4_mul (mat4_mul (mat4_mul
              (glm_translate positionXYZ)
              (glm_rotate (glm_radians XrotationDegrees) (Vec3 1 0 0)))
              (glm_rotate (glm_radians YrotationDegrees) (Vec3 0 1 0)))
              (glm_rotate (glm_radians ZrotationDegrees) (Vec3 0 0 1)))
              (glm_scale scaleXYZ)
      in if_shader [ShaderSet g_ModelName (Mat4Value modelView)])"

definition SetShaderTexture :: "string \<Rightarrow> member_function" where
  "SetShaderTexture textureTag s =
     (if m_pShaderManager s = NULL then Some ([], s)
      else (case FindTextureSlot s textureTag of
              None \<Rightarrow> None
            | Some slot \<Rightarrow>
                Some ([ShaderSet g_UseTextureName (IntValue 1),
                       ShaderSet g_TextureValueName (Sampler2DValue slot)], s)))"

definition SetTextureUVScale :: "real \<Rightarrow> real \<Rightarrow> member_function" where
  "SetTextureUVScale u v = if_shader [ShaderSet ''UVscale'' (Vec2Value u v)]"

subsection \<open>Preparing and rendering the scene\<close>

definition push_material :: "OBJECT_MATERIAL \<Rightarrow> member_function" where
  "push_material m s = Some ([], s\<lparr>m_objectMaterials := m_objectMaterials s @ [m]\<rparr>)"

text \<open>\<^verbatim>\<open>bReturn = CreateGLTexture(...)\<close>: the result is assigned and never read.\<close>

definition load_texture :: "loader \<Rightarrow> string \<Rightarrow> string \<Rightarrow> member_function" where
  "load_texture env filename tg s =
     (case CreateGLTexture env filename tg s of
        None \<Rightarrow> None
      | Some (bReturn, cs, s') \<Rightarrow> Some (cs, s'))"

definition define_materials :: "member_function list" where
  "define_materials =
     [push_material \<lparr>ambientColor = Vec3 0.2 0.2 0.1, ambientStrength = 0.4,
                     diffuseColor = Vec3 0.3 0.3 0.2, specularColor = Vec3 0.6 0.5 0.4,
                     shininess = 22, material_tag = ''gold''\<rparr>,
      push_material \<lparr>ambientColor = Vec3 0.2 0.2 0.2, ambientStrength = 0.2,
                     diffuseColor = Vec3 0.5 0.5 0.5, specularColor = Vec3 0.4 0.4 0.4,
                     shininess = 0.5, material_tag = ''cement''\<rparr>,
      push_material \<lparr>ambientColor = Vec3 0.4 0.3 0.1, ambientStrength = 0.2,
                     diffuseColor = Vec3 0.3 0.2 0.1, specularColor = Vec3 0.1 0.1 0.1,
                     shininess = 0.3, material_tag = ''wood''\<rparr>,
      push_material \<lparr>ambientColor = Vec3 0.2 0.3 0.4, ambientStrength = 0.3,
                     diffuseColor = Vec3 0.3 0.2 0.1, specularColor = Vec3 0.4 0.5 0.6,
                     shininess = 25, material_tag = ''tile''\<rparr>,
      push_material \<lparr>ambientColor = Vec3 0.4 0.4 0.4, ambientStrength = 0.3,
                     diffuseColor = Vec3 0.3 0.3 0.3, specularColor = Vec3 0.6 0.6 0.6,
                     shininess = 85, material_tag = ''glass''\<rparr>,
      push_material \<lparr>ambientColor = Vec3 0.2 0.2 0.3, ambientStrength = 0.3,
                     diffuseColor = Vec3 0.4 0.4 0.5, specularColor = Vec3 0.2 0.2 0.4,
                     shininess = 0.5, material_tag = ''clay''\<rparr>]"

definition light_calls :: "call list" where
  "light_calls =
     [ShaderSet ''lightSources[0].position'' (Vec3Value (Vec3 3 14 0)),
      ShaderSet ''lightSources[0].ambientColor'' (Vec3Value (Vec3 0.1 0.1 0.1)),
      ShaderSet ''lightSources[0].diffuseColor'' (Vec3Value (Vec3 0.6 0.6 0.6)),
      ShaderSet ''lightSources[0].specularColor'' (Vec3Value (Vec3 0 0 0)),
      ShaderSet ''lightSources[0].focalStrength'' (FloatValue 32),
      ShaderSet ''lightSources[0].specularIntensity'' (FloatValue 0.05),
      ShaderSet ''lightSources[1].position'' (Vec3Value (Vec3 (-3) 14 0)),
      ShaderSet ''lightSources[1].ambientColor'' (Vec3Value (Vec3 0.1 0.1 0.1)),
      ShaderSet ''lightSources[1].diffuseColor'' (Vec3Value (Vec3 0.6 0.6 0.6)),
      ShaderSet ''lightSources[1].specularColor'' (Vec3Value (Vec3 0 0 0)),
      ShaderSet ''lightSources[1].focalStrength'' (FloatValue 32),
      ShaderSet ''lightSources[1].specularIntensity'' (FloatValue 0.05),
      ShaderSet ''lightSources[2].position'' (Vec3Value (Vec3 0.6 5 6)),
      ShaderSet ''lightSources[2].ambientColor'' (Vec3Value (Vec3 0.1 0.1 0.1)),
      ShaderSet ''lightSources[2].diffuseColor'' (Vec3Value (Vec3 0.6 0.6 0.6)),
      ShaderSet ''lightSources[2].specularColor'' (Vec3Value (Vec3 0.3 0.3 0.3)),
      ShaderSet ''lightSources[2].focalStrength'' (FloatValue 12),
      ShaderSet ''lightSources[2].specularIntensity'' (FloatValue 0.5),
      ShaderSet ''bUseLighting'' (BoolValue True)]"

definition load_meshes :: "call list" where
  "load_meshes = [Load PlaneMesh, Load ConeMesh, Load TorusMesh, Load BoxMesh]"

definition PrepareScene :: "loader \<Rightarrow> member_function" where
  "PrepareScene env =
     exec (define_materials @
       [via_shader light_calls,
        via_meshes load_meshes,
        load_texture env ''../../Utilities/textures/brick.jpg'' ''floor'',
        load_texture env ''../../Utilities/textures/breadcrust.jpg'' ''cone'',
        load_texture env ''../../Utilities/textures/gold-seamless-texture.jpg'' ''box'',
        BindGLTextures])"

text \<open>
  \<^verbatim>\<open>RenderScene\<close>, one object per line group of the source. The three rotation locals
  stay 0 and are passed for the plane; the other calls pass literals.
\<close>

definition draw_object ::
    "vec3 \<Rightarrow> real \<Rightarrow> real \<Rightarrow> real \<Rightarrow> vec3 \<Rightarrow> string \<Rightarrow> shape \<Rightarrow> member_function list" where
  "draw_object scaleXYZ xr yr zr positionXYZ textureTag sh =
     [SetTransformations scaleXYZ xr yr zr positionXYZ,
      SetShaderTexture textureTag,
      via_meshes [Draw sh]]"

definition RenderScene :: member_function where
  "RenderScene =
     (let XrotationDegrees = 0; YrotationDegrees = 0; ZrotationDegrees = 0
      in exec (
        [SetTransformations (Vec3 20 1 20) XrotationDegrees YrotationDegrees ZrotationDegrees
           (Vec3 0 0 0),
         SetShaderTexture ''floor'',
         SetTextureUVScale 4 4,
         via_meshes [Draw PlaneMesh]]
        @ draw_object (Vec3 1 2 1) 0 0 0 (Vec3 0 1 3) ''cone'' ConeMesh
        @ draw_object (Vec3 1.6 1.6 1.6) 90 0 0 (Vec3 0 1 3) ''cone'' TorusMesh
        @ draw_object (Vec3 1.6 2 1.6) 0 0 0 (Vec3 (-6) 0.5 8) ''cone'' ConeMesh
        @ draw_object (Vec3 1.6 2 1.6) 0 0 0 (Vec3 6 0.5 8) ''cone'' ConeMesh
        @ draw_object (Vec3 1.2 2 1.2) 0 0 0 (Vec3 (-4) 0.5 5) ''cone'' ConeMesh
        @ draw_object (Vec3 1.2 2 1.2) 0 0 0 (Vec3 4 0.5 5) ''cone'' ConeMesh
        @ draw_object (Vec3 0.9 2 0.9) 0 0 0 (Vec3 (-2) 0.5 (-3)) ''cone'' ConeMesh
        @ draw_object (Vec3 0.9 2 0.9) 0 0 0 (Vec3 2 0.5 (-3)) ''cone'' ConeMesh
        @ draw_object (Vec3 0.3 2 3.5) 0 0 0 (Vec3 (-5) 0.6 6.5) ''box'' BoxMesh))"

subsection \<open>Construction and destruction\<close>

text \<open>
  The constructor assigns the two pointers. The other members keep what their
  declarations in SceneManager.h give them, which is the parameter \<open>declared\<close>.
\<close>

definition SceneManager_constructor :: "pointer \<Rightarrow> SceneManager \<Rightarrow> SceneManager" where
  "SceneManager_constructor pShaderManager declared =
     declared\<lparr>m_pShaderManager := pShaderManager, m_basicMeshes := Allocated\<rparr>"

definition SceneManager_destructor :: "SceneManager \<Rightarrow> call list \<times> SceneManager" where
  "SceneManager_destructor s =
     ((if m_basicMeshes s = NULL then [] else [delete_ShapeMeshes]),
      s\<lparr>m_pShaderManager := NULL, m_basicMeshes := NULL\<rparr>)"

subsection \<open>The main function\<close>

text \<open>
  The part of \<^verbatim>\<open>main\<close> before the loop that concerns the scene, one iteration of the
  loop, and the part after the loop. \<^verbatim>\<open>ViewManager::PrepareSceneView\<close> is outside the
  source: the calls it makes are the parameter \<open>prepareSceneView\<close>.
\<close>

definition startup :: "loader \<Rightarrow> SceneManager \<Rightarrow> (call list \<times> SceneManager) option" where
  "startup env declared = PrepareScene env (SceneManager_constructor Allocated declared)"

definition view_matrix :: "globals \<Rightarrow> mat4" where
  "view_matrix g = glm_lookAt (cameraPos g) (vec3_add (cameraPos g) (cameraFront g)) (cameraUp g)"

definition projection_matrix :: "globals \<Rightarrow> mat4" where
  "projection_matrix g =
     (if useOrtho g
      then (let aspect = 800 / 600; orthoSize = 10
            in glm_ortho (- orthoSize * aspect) (orthoSize * aspect) (- orthoSize) orthoSize
                 0.1 100)
      else glm_perspective (glm_radians (fov g)) (800 / 600) 0.1 100)"

definition render_frame ::
    "call list \<Rightarrow> globals \<Rightarrow> SceneManager \<Rightarrow> (call list \<times> SceneManager) option" where
  "render_frame prepareSceneView g s =
     (case RenderScene s of
        None \<Rightarrow> None
      | Some (scene_calls, s') \<Rightarrow>
          Some ([glEnable_DEPTH_TEST, glClearColor 0 0 0 1, glClear_COLOR_DEPTH]
                @ prepareSceneView
                @ [ShaderSet ''view'' (Mat4Value (view_matrix g)),
                   ShaderSet ''projection'' (Mat4Value (projection_matrix g))]
                @ scene_calls
                @ [glfwSwapBuffers], s'))"

definition loop_iteration ::
    "window \<Rightarrow> real \<Rightarrow> call list \<Rightarrow> globals \<times> SceneManager
      \<Rightarrow> (call list \<times> globals \<times> SceneManager) option" where
  "loop_iteration w currentFrame prepareSceneView gs =
     (let g = begin_frame w currentFrame (fst gs)
      in (case render_frame prepareSceneView g (snd gs) of
            None \<Rightarrow> None
          | Some (cs, s') \<Rightarrow> Some (cs, g, s')))"

definition shutdown :: "SceneManager \<Rightarrow> call list \<times> SceneManager" where
  "shutdown s =
     (let r = SceneManager_destructor s
      in (fst r @ [delete_ViewManager, delete_ShaderManager], snd r))"

section \<open>The model matrix\<close>

definition example_scene :: SceneManager where
  "example_scene =
     \<lparr> m_pShaderManager = Allocated,
       m_basicMeshes = Allocated,
       m_textureIDs = [\<lparr>ID = 1, tag = ''floor''\<rparr>, \<lparr>ID = 2, tag = ''cone''\<rparr>,
                       \<lparr>ID = 3, tag = ''box''\<rparr>, \<lparr>ID = 0, tag = []\<rparr>],
       m_loadedTextures = 3,
       m_objectMaterials = [] \<rparr>"

text \<open>
  Claim C1. With a shader manager present, \<^verbatim>\<open>SetTransformations\<close> makes exactly one
  call, which sets the uniform "model" to the product translate(position) * rotateX *
  rotateY * rotateZ * scale, and leaves the scene manager as it is. Applied to a vertex
  (x, y, z, 1), that matrix scales first, then rotates about Z, about Y and about X, then
  translates.
\<close>

theorem SetTransformations_model:
  assumes "m_pShaderManager s \<noteq> NULL"
  shows "SetTransformations scaleXYZ xdeg ydeg zdeg positionXYZ s
           = Some ([ShaderSet ''model''
                      (Mat4Value (model_matrix scaleXYZ xdeg ydeg zdeg positionXYZ))], s)
         \<and> model_matrix scaleXYZ xdeg ydeg zdeg positionXYZ
           = mat4_mul (mat4_mul (mat4_mul (mat4_mul
               (glm_translate positionXYZ)
               (glm_rotate (glm_radians xdeg) (Vec3 1 0 0)))
               (glm_rotate (glm_radians ydeg) (Vec3 0 1 0)))
               (glm_rotate (glm_radians zdeg) (Vec3 0 0 1)))
               (glm_scale scaleXYZ)
         \<and> (\<forall>p. mat4_mul_vec4 (model_matrix scaleXYZ xdeg ydeg zdeg positionXYZ) (homogeneous p)
                = homogeneous
                    (translate_point positionXYZ
                      (rotate_about_x (glm_radians xdeg)
                        (rotate_about_y (glm_radians ydeg)
                          (rotate_about_z (glm_radians zdeg)
                            (scale_point scaleXYZ p))))))"
proof -
  have call: "SetTransformations scaleXYZ xdeg ydeg zdeg positionXYZ s
           = Some ([ShaderSet ''model''
                      (Mat4Value (model_matrix scaleXYZ xdeg ydeg zdeg positionXYZ))], s)"
    using assms
    by (simp add: SetTransformations_def if_shader_def model_matrix_def g_ModelName_def)
  have vertex: "mat4_mul_vec4 (model_matrix scaleXYZ xdeg ydeg zdeg positionXYZ) (homogeneous p)
                = homogeneous
                    (translate_point positionXYZ
                      (rotate_about_x (glm_radians xdeg)
                        (rotate_about_y (glm_radians ydeg)
                          (rotate_about_z (glm_radians zdeg)
                            (scale_point scaleXYZ p)))))" for p
    using model_matrix_point [of scaleXYZ xdeg ydeg zdeg positionXYZ p]
    by (simp only: transform_point_def)
  have product: "model_matrix scaleXYZ xdeg ydeg zdeg positionXYZ
           = mat4_mul (mat4_mul (mat4_mul (mat4_mul
               (glm_translate positionXYZ)
               (glm_rotate (glm_radians xdeg) (Vec3 1 0 0)))
               (glm_rotate (glm_radians ydeg) (Vec3 0 1 0)))
               (glm_rotate (glm_radians zdeg) (Vec3 0 0 1)))
               (glm_scale scaleXYZ)"
    by (simp only: model_matrix_def)
  show ?thesis
    using call vertex product by blast
qed

lemma radians_90: "glm_radians 90 = pi / 2" and radians_0: "glm_radians 0 = 0"
  by (simp_all add: glm_radians_def)

theorem SetTransformations_model_witness:
  "m_pShaderManager example_scene \<noteq> NULL
   \<and> SetTransformations (Vec3 2 3 4) 90 0 0 (Vec3 10 20 30) example_scene
       = Some ([ShaderSet ''model''
                  (Mat4Value (model_matrix (Vec3 2 3 4) 90 0 0 (Vec3 10 20 30)))], example_scene)
   \<and> mat4_mul_vec4 (model_matrix (Vec3 2 3 4) 90 0 0 (Vec3 10 20 30)) (Vec4 1 1 1 1)
       = Vec4 12 16 33 1"
proof -
  have ne: "m_pShaderManager example_scene \<noteq> NULL"
    by (simp add: example_scene_def)
  note t = SetTransformations_model [OF ne, of "Vec3 2 3 4" 90 0 0 "Vec3 10 20 30"]
  from t have "mat4_mul_vec4 (model_matrix (Vec3 2 3 4) 90 0 0 (Vec3 10 20 30))
                 (homogeneous (Vec3 1 1 1))
               = homogeneous
                    (translate_point (Vec3 10 20 30)
                      (rotate_about_x (glm_radians 90)
                        (rotate_about_y (glm_radians 0)
                          (rotate_about_z (glm_radians 0)
                            (scale_point (Vec3 2 3 4) (Vec3 1 1 1))))))"
    by blast
  then have v: "mat4_mul_vec4 (model_matrix (Vec3 2 3 4) 90 0 0 (Vec3 10 20 30)) (Vec4 1 1 1 1)
                = Vec4 12 16 33 1"
    by (simp add: radians_90 radians_0 translate_point_def)
  show ?thesis
    using ne t v by blast
qed

section \<open>Rendering leaves the scene manager as it is\<close>

definition keeps_object :: "member_function \<Rightarrow> bool" where
  "keeps_object m = (\<forall>s out s'. m s = Some (out, s') \<longrightarrow> s' = s)"

lemma exec_keeps_object:
  assumes "\<forall>m \<in> set ms. keeps_object m"
  shows "keeps_object (exec ms)"
  using assms
proof (induction ms)
  case Nil
  show ?case by (simp add: keeps_object_def)
next
  case (Cons m ms)
  then have m: "keeps_object m" and ms: "keeps_object (exec ms)"
    by simp_all
  show ?case
    unfolding keeps_object_def
  proof (intro allI impI)
    fix s out s'
    assume run: "exec (m # ms) s = Some (out, s')"
    then obtain out1 s1 where 1: "m s = Some (out1, s1)"
      by (cases "m s") auto
    with run obtain out2 where 2: "exec ms s1 = Some (out2, s')"
      by (cases "exec ms s1") auto
    from 1 m have "s1 = s" by (simp add: keeps_object_def)
    moreover from 2 ms have "s' = s1" by (simp add: keeps_object_def)
    ultimately show "s' = s" by simp
  qed
qed

lemma keeps_if_shader: "keeps_object (if_shader cs)"
  by (simp add: keeps_object_def if_shader_def)

lemma keeps_via_meshes: "keeps_object (via_meshes cs)"
  by (simp add: keeps_object_def via_meshes_def split: if_splits)

lemma keeps_SetTransformations: "keeps_object (SetTransformations sc xr yr zr pos)"
  by (simp add: SetTransformations_def Let_def keeps_if_shader)

lemma keeps_SetTextureUVScale: "keeps_object (SetTextureUVScale u v)"
  by (simp add: SetTextureUVScale_def keeps_if_shader)

lemma keeps_SetShaderTexture: "keeps_object (SetShaderTexture t)"
  by (auto simp add: keeps_object_def SetShaderTexture_def split: if_splits option.splits)

lemma keeps_RenderScene: "keeps_object RenderScene"
  unfolding RenderScene_def Let_def draw_object_def
  by (rule exec_keeps_object)
     (simp add: keeps_SetTransformations keeps_SetTextureUVScale keeps_SetShaderTexture
        keeps_via_meshes)

lemma exec_twice:
  assumes "m s = Some (out, s)"
  shows "exec [m, m] s = Some (out @ out, s)"
  using assms by simp

text \<open>
  What a sequence of calls draws: each \<open>Draw\<close> with the values that the uniforms
  "bUseTexture", "objectTexture" and "UVscale" have at that moment, a uniform keeping its
  value until it is set again. The first three arguments are the values on entry.
\<close>

fun drawn ::
    "int option \<Rightarrow> int option \<Rightarrow> (real \<times> real) option \<Rightarrow> call list
      \<Rightarrow> (shape \<times> int option \<times> int option \<times> (real \<times> real) option) list" where
  "drawn use slot uv [] = []"
| "drawn use slot uv (Draw sh # cs) = (sh, use, slot, uv) # drawn use slot uv cs"
| "drawn use slot uv (ShaderSet name (IntValue b) # cs) =
     drawn (if name = ''bUseTexture'' then Some b else use) slot uv cs"
| "drawn use slot uv (ShaderSet name (Sampler2DValue k) # cs) =
     drawn use (if name = ''objectTexture'' then Some k else slot) uv cs"
| "drawn use slot uv (ShaderSet name (Vec2Value u v) # cs) =
     drawn use slot (if name = ''UVscale'' then Some (u, v) else uv) cs"
| "drawn use slot uv (c # cs) = drawn use slot uv cs"

definition textured :: "shape \<Rightarrow> int \<Rightarrow> shape \<times> int option \<times> int option \<times> (real \<times> real) option" where
  "textured sh slot = (sh, Some 1, Some slot, Some (4, 4))"

lemma RenderScene_drawn:
  assumes "m_pShaderManager s \<noteq> NULL" "m_basicMeshes s \<noteq> NULL"
    and "FindTextureSlot s ''floor'' = Some a"
    and "FindTextureSlot s ''cone'' = Some b"
    and "FindTextureSlot s ''box'' = Some c"
  shows "\<exists>calls. RenderScene s = Some (calls, s)
           \<and> drawn None None None calls
             = [textured PlaneMesh a, textured ConeMesh b, textured TorusMesh b,
                textured ConeMesh b, textured ConeMesh b, textured ConeMesh b,
                textured ConeMesh b, textured ConeMesh b, textured ConeMesh b,
                textured BoxMesh c]"
  using assms
  by (simp add: RenderScene_def draw_object_def SetTransformations_def SetShaderTexture_def
      SetTextureUVScale_def if_shader_def via_meshes_def g_ModelName_def g_UseTextureName_def
      g_TextureValueName_def textured_def)

lemma example_scene_slots:
  "FindTextureSlot example_scene ''floor'' = Some 0"
  "FindTextureSlot example_scene ''cone'' = Some 1"
  "FindTextureSlot example_scene ''box'' = Some 2"
  by (simp_all add: FindTextureSlot_def example_scene_def upt_rec)

text \<open>
  Claim C7. \<^verbatim>\<open>RenderScene\<close> leaves every member of the scene manager unchanged, so a
  second invocation right after the first makes the same calls in the same order.
\<close>

theorem RenderScene_static:
  assumes "RenderScene s = Some (calls, s')"
  shows "s' = s \<and> RenderScene s' = Some (calls, s')
         \<and> exec [RenderScene, RenderScene] s = Some (calls @ calls, s)"
proof -
  have same: "s' = s"
    using keeps_RenderScene assms by (simp add: keeps_object_def)
  with assms have again: "RenderScene s = Some (calls, s)"
    by simp
  have "exec [RenderScene, RenderScene] s = Some (calls @ calls, s)"
    using again by (rule exec_twice [of RenderScene s calls])
  then show ?thesis
    using same again by simp
qed

theorem RenderScene_static_witness:
  "\<exists>calls. RenderScene example_scene = Some (calls, example_scene)
     \<and> exec [RenderScene, RenderScene] example_scene = Some (calls @ calls, example_scene)"
proof -
  have "m_pShaderManager example_scene \<noteq> NULL" "m_basicMeshes example_scene \<noteq> NULL"
    by (simp_all add: example_scene_def)
  then obtain calls where r: "RenderScene example_scene = Some (calls, example_scene)"
    using RenderScene_drawn [OF _ _ example_scene_slots] by blast
  show ?thesis
    using r RenderScene_static [OF r] by blast
qed

section \<open>Loading a texture\<close>

definition example_loader :: loader where
  "example_loader =
     \<lparr> stbi_load = (\<lambda>filename.
         if filename = ''missing.jpg'' then None
         else if filename = ''grey.png''
         then Some \<lparr>width = 64, height = 64, colorChannels = 1\<rparr>
         else Some \<lparr>width = 512, height = 512, colorChannels = 3\<rparr>),
       new_texture_name = (\<lambda>filename.
         if filename = ''../../Utilities/textures/brick.jpg'' then 1
         else if filename = ''../../Utilities/textures/breadcrust.jpg'' then 2
         else if filename = ''../../Utilities/textures/gold-seamless-texture.jpg'' then 3
         else 4) \<rparr>"

lemma register_texture_Some:
  assumes "register_texture up tid tg s = Some (b, cs, s')"
  shows "b \<and> 0 \<le> m_loadedTextures s \<and> nat (m_loadedTextures s) < length (m_textureIDs s)
         \<and> cs = up @ [glGenerateMipmap, stbi_image_free, glBindTexture 0]
         \<and> s' = s\<lparr>m_textureIDs := (m_textureIDs s)
                      [nat (m_loadedTextures s) := \<lparr>ID = tid, tag = tg\<rparr>],
                   m_loadedTextures := m_loadedTextures s + 1\<rparr>"
  using assms by (auto simp add: register_texture_def Let_def split: if_splits)

lemma CreateGLTexture_undecodable:
  assumes "stbi_load env f = None"
  shows "CreateGLTexture env f tg s = Some (False, [stbi_set_flip_vertically_on_load True], s)"
  using assms by (simp add: CreateGLTexture_def)

lemma CreateGLTexture_bad_channels:
  assumes "stbi_load env f = Some img" "colorChannels img \<noteq> 3" "colorChannels img \<noteq> 4"
  shows "\<exists>cs. CreateGLTexture env f tg s = Some (False, cs, s)"
  using assms by (simp add: CreateGLTexture_def Let_def)

lemma CreateGLTexture_loaded:
  assumes "stbi_load env f = Some img" "colorChannels img = 3 \<or> colorChannels img = 4"
    and "0 \<le> m_loadedTextures s" "nat (m_loadedTextures s) < length (m_textureIDs s)"
  shows "\<exists>cs. CreateGLTexture env f tg s
           = Some (True, cs,
               s\<lparr>m_textureIDs := (m_textureIDs s)
                    [nat (m_loadedTextures s) := \<lparr>ID = new_texture_name env f, tag = tg\<rparr>],
                 m_loadedTextures := m_loadedTextures s + 1\<rparr>)
           \<and> glGenTextures (new_texture_name env f) \<in> set cs"
  using assms by (auto simp add: CreateGLTexture_def register_texture_def Let_def)

lemma CreateGLTexture_True:
  assumes "CreateGLTexture env f tg s = Some (True, cs, s')"
  shows "s' = s\<lparr>m_textureIDs := (m_textureIDs s)
                   [nat (m_loadedTextures s) := \<lparr>ID = new_texture_name env f, tag = tg\<rparr>],
                m_loadedTextures := m_loadedTextures s + 1\<rparr>
         \<and> 0 \<le> m_loadedTextures s \<and> nat (m_loadedTextures s) < length (m_textureIDs s)"
  using assms
  by (auto simp add: CreateGLTexture_def Let_def split: option.splits if_splits
      dest: register_texture_Some)

lemma CreateGLTexture_False:
  assumes "CreateGLTexture env f tg s = Some (False, cs, s')"
  shows "s' = s"
  using assms
  by (auto simp add: CreateGLTexture_def Let_def split: option.splits if_splits
      dest: register_texture_Some)

text \<open>
  Claim C8. When the file cannot be decoded, or decodes to an image whose channel count
  is neither 3 nor 4, \<^verbatim>\<open>CreateGLTexture\<close> returns false and the scene manager, with its
  texture table and count, is unchanged. When the file decodes to 3 or 4 channels and the
  table has a free entry, it returns true, having written the new texture name and the tag
  at index \<^verbatim>\<open>m_loadedTextures\<close> and incremented the count by one. Conversely, whenever it
  returns true the table and count have changed in exactly that way, and whenever it
  returns false nothing has changed.
\<close>

theorem CreateGLTexture_registry:
  "(stbi_load env f = None \<longrightarrow>
      CreateGLTexture env f tg s = Some (False, [stbi_set_flip_vertically_on_load True], s))
   \<and> (\<forall>img. stbi_load env f = Some img \<and> colorChannels img \<noteq> 3 \<and> colorChannels img \<noteq> 4 \<longrightarrow>
        (\<exists>cs. CreateGLTexture env f tg s = Some (False, cs, s)))
   \<and> (\<forall>img. stbi_load env f = Some img \<and> (colorChannels img = 3 \<or> colorChannels img = 4)
         \<and> 0 \<le> m_loadedTextures s \<and> nat (m_loadedTextures s) < length (m_textureIDs s) \<longrightarrow>
        (\<exists>cs. CreateGLTexture env f tg s
           = Some (True, cs,
               s\<lparr>m_textureIDs := (m_textureIDs s)
                    [nat (m_loadedTextures s) := \<lparr>ID = new_texture_name env f, tag = tg\<rparr>],
                 m_loadedTextures := m_loadedTextures s + 1\<rparr>)
           \<and> glGenTextures (new_texture_name env f) \<in> set cs))
   \<and> (\<forall>cs s'. CreateGLTexture env f tg s = Some (True, cs, s') \<longrightarrow>
        m_loadedTextures s' = m_loadedTextures s + 1
        \<and> m_textureIDs s' ! nat (m_loadedTextures s) = \<lparr>ID = new_texture_name env f, tag = tg\<rparr>
        \<and> length (m_textureIDs s') = length (m_textureIDs s)
        \<and> (\<forall>j. j \<noteq> nat (m_loadedTextures s) \<longrightarrow> m_textureIDs s' ! j = m_textureIDs s ! j))
   \<and> (\<forall>cs s'. CreateGLTexture env f tg s = Some (False, cs, s') \<longrightarrow> s' = s)"
proof (intro conjI allI impI)
  assume "stbi_load env f = None"
  then show "CreateGLTexture env f tg s = Some (False, [stbi_set_flip_vertically_on_load True], s)"
    by (rule CreateGLTexture_undecodable)
next
  fix img
  assume "stbi_load env f = Some img \<and> colorChannels img \<noteq> 3 \<and> colorChannels img \<noteq> 4"
  then show "\<exists>cs. CreateGLTexture env f tg s = Some (False, cs, s)"
    using CreateGLTexture_bad_channels by blast
next
  fix img
  assume "stbi_load env f = Some img \<and> (colorChannels img = 3 \<or> colorChannels img = 4)
         \<and> 0 \<le> m_loadedTextures s \<and> nat (m_loadedTextures s) < length (m_textureIDs s)"
  then show "\<exists>cs. CreateGLTexture env f tg s
           = Some (True, cs,
               s\<lparr>m_textureIDs := (m_textureIDs s)
                    [nat (m_loadedTextures s) := \<lparr>ID = new_texture_name env f, tag = tg\<rparr>],
                 m_loadedTextures := m_loadedTextures s + 1\<rparr>)
           \<and> glGenTextures (new_texture_name env f) \<in> set cs"
    using CreateGLTexture_loaded [of env f img s tg] by blast
next
  fix cs s'
  assume t: "CreateGLTexture env f tg s = Some (True, cs, s')"
  note r = CreateGLTexture_True [OF t]
  from r show "m_loadedTextures s' = m_loadedTextures s + 1" by simp
  from r show "m_textureIDs s' ! nat (m_loadedTextures s)
               = \<lparr>ID = new_texture_name env f, tag = tg\<rparr>" by simp
  from r show "length (m_textureIDs s') = length (m_textureIDs s)" by simp
  fix j
  assume "j \<noteq> nat (m_loadedTextures s)"
  with r show "m_textureIDs s' ! j = m_textureIDs s ! j" by simp
next
  fix cs s'
  assume "CreateGLTexture env f tg s = Some (False, cs, s')"
  then show "s' = s" by (rule CreateGLTexture_False)
qed

theorem CreateGLTexture_registry_witness:
  "stbi_load example_loader ''missing.jpg'' = None
   \<and> CreateGLTexture example_loader ''missing.jpg'' ''wood'' example_scene
       = Some (False, [stbi_set_flip_vertically_on_load True], example_scene)
   \<and> stbi_load example_loader ''grey.png''
       = Some \<lparr>width = 64, height = 64, colorChannels = 1\<rparr>
   \<and> (\<exists>cs. CreateGLTexture example_loader ''grey.png'' ''wood'' example_scene
         = Some (False, cs, example_scene))
   \<and> stbi_load example_loader ''wood.jpg''
       = Some \<lparr>width = 512, height = 512, colorChannels = 3\<rparr>
   \<and> (\<exists>cs. CreateGLTexture example_loader ''wood.jpg'' ''wood'' example_scene
         = Some (True, cs,
             example_scene\<lparr>m_textureIDs :=
                 [\<lparr>ID = 1, tag = ''floor''\<rparr>, \<lparr>ID = 2, tag = ''cone''\<rparr>,
                  \<lparr>ID = 3, tag = ''box''\<rparr>, \<lparr>ID = 4, tag = ''wood''\<rparr>],
               m_loadedTextures := 4\<rparr>))"
proof -
  have missing: "stbi_load example_loader ''missing.jpg'' = None"
    by (simp add: example_loader_def)
  have grey: "stbi_load example_loader ''grey.png''
              = Some \<lparr>width = 64, height = 64, colorChannels = 1\<rparr>"
    by (simp add: example_loader_def)
  have wood: "stbi_load example_loader ''wood.jpg''
              = Some \<lparr>width = 512, height = 512, colorChannels = 3\<rparr>"
    by (simp add: example_loader_def)
  have room: "0 \<le> m_loadedTextures example_scene"
    "nat (m_loadedTextures example_scene) < length (m_textureIDs example_scene)"
    by (simp_all add: example_scene_def)
  have 1: "CreateGLTexture example_loader ''missing.jpg'' ''wood'' example_scene
           = Some (False, [stbi_set_flip_vertically_on_load True], example_scene)"
    using CreateGLTexture_registry [of example_loader "''missing.jpg''" "''wood''" example_scene]
      missing by blast
  have 2: "\<exists>cs. CreateGLTexture example_loader ''grey.png'' ''wood'' example_scene
             = Some (False, cs, example_scene)"
    using CreateGLTexture_registry [of example_loader "''grey.png''" "''wood''" example_scene]
      grey by simp
  have "\<exists>cs. CreateGLTexture example_loader ''wood.jpg'' ''wood'' example_scene
          = Some (True, cs,
              example_scene\<lparr>m_textureIDs := (m_textureIDs example_scene)
                  [nat (m_loadedTextures example_scene) :=
                     \<lparr>ID = new_texture_name example_loader ''wood.jpg'', tag = ''wood''\<rparr>],
                m_loadedTextures := m_loadedTextures example_scene + 1\<rparr>)"
    using CreateGLTexture_registry [of example_loader "''wood.jpg''" "''wood''" example_scene]
      wood room by auto
  then have 3: "\<exists>cs. CreateGLTexture example_loader ''wood.jpg'' ''wood'' example_scene
         = Some (True, cs,
             example_scene\<lparr>m_textureIDs :=
                 [\<lparr>ID = 1, tag = ''floor''\<rparr>, \<lparr>ID = 2, tag = ''cone''\<rparr>,
                  \<lparr>ID = 3, tag = ''box''\<rparr>, \<lparr>ID = 4, tag = ''wood''\<rparr>],
               m_loadedTextures := 4\<rparr>)"
    by (simp add: example_scene_def example_loader_def)
  show ?thesis
    using missing grey wood 1 2 3 by blast
qed

section \<open>The scene that is prepared and drawn\<close>

definition brick_jpg :: string where
  "brick_jpg = ''../../Utilities/textures/brick.jpg''"

definition breadcrust_jpg :: string where
  "breadcrust_jpg = ''../../Utilities/textures/breadcrust.jpg''"

definition gold_jpg :: string where
  "gold_jpg = ''../../Utilities/textures/gold-seamless-texture.jpg''"

definition decodable :: "loader \<Rightarrow> string \<Rightarrow> bool" where
  "decodable env f =
     (case stbi_load env f of
        None \<Rightarrow> False
      | Some img \<Rightarrow> colorChannels img = 3 \<or> colorChannels img = 4)"

text \<open>A scene manager as its declaration leaves it, with room for four textures.\<close>

definition example_declared :: SceneManager where
  "example_declared =
     \<lparr> m_pShaderManager = NULL,
       m_basicMeshes = NULL,
       m_textureIDs = [\<lparr>ID = 0, tag = []\<rparr>, \<lparr>ID = 0, tag = []\<rparr>,
                       \<lparr>ID = 0, tag = []\<rparr>, \<lparr>ID = 0, tag = []\<rparr>],
       m_loadedTextures = 0,
       m_objectMaterials = [] \<rparr>"

definition render_calls :: "SceneManager \<Rightarrow> call list" where
  "render_calls s = (case RenderScene s of None \<Rightarrow> [] | Some (cs, s') \<Rightarrow> cs)"

definition scene_after_startup :: "loader \<Rightarrow> SceneManager \<Rightarrow> SceneManager" where
  "scene_after_startup env declared =
     (case startup env declared of None \<Rightarrow> declared | Some (cs, s) \<Rightarrow> s)"

lemma exec_append:
  "exec (ms @ ns) s =
     (case exec ms s of
        None \<Rightarrow> None
      | Some (out1, s1) \<Rightarrow>
          (case exec ns s1 of None \<Rightarrow> None | Some (out2, s2) \<Rightarrow> Some (out1 @ out2, s2)))"
  by (induction ms arbitrary: s) (auto split: option.splits)

lemma exec_define_materials:
  "\<exists>mats. exec define_materials s = Some ([], s\<lparr>m_objectMaterials := mats\<rparr>)"
  unfolding define_materials_def
  by (rule exI) (simp add: push_material_def)

lemma CreateGLTexture_no_Load:
  assumes "CreateGLTexture env f tg s = Some (b, cs, s')"
  shows "count_list cs (Load sh) = 0 \<and> count_list cs (glDeleteTextures n) = 0"
  using assms
  by (auto simp add: CreateGLTexture_def register_texture_def Let_def
      split: option.splits if_splits)

lemma load_texture_decodable:
  assumes "decodable env f" "0 \<le> m_loadedTextures s"
    "nat (m_loadedTextures s) < length (m_textureIDs s)"
  shows "\<exists>cs. load_texture env f tg s
           = Some (cs, s\<lparr>m_textureIDs := (m_textureIDs s)
                          [nat (m_loadedTextures s) := \<lparr>ID = new_texture_name env f, tag = tg\<rparr>],
                        m_loadedTextures := m_loadedTextures s + 1\<rparr>)
           \<and> (\<forall>sh. count_list cs (Load sh) = 0) \<and> (\<forall>n. count_list cs (glDeleteTextures n) = 0)"
proof -
  from assms(1) obtain img where img: "stbi_load env f = Some img"
    "colorChannels img = 3 \<or> colorChannels img = 4"
    by (auto simp add: decodable_def split: option.splits)
  from CreateGLTexture_loaded [OF img assms(2,3)] obtain cs where
    cs: "CreateGLTexture env f tg s
           = Some (True, cs, s\<lparr>m_textureIDs := (m_textureIDs s)
                          [nat (m_loadedTextures s) := \<lparr>ID = new_texture_name env f, tag = tg\<rparr>],
                        m_loadedTextures := m_loadedTextures s + 1\<rparr>)"
    by blast
  have "load_texture env f tg s
           = Some (cs, s\<lparr>m_textureIDs := (m_textureIDs s)
                          [nat (m_loadedTextures s) := \<lparr>ID = new_texture_name env f, tag = tg\<rparr>],
                        m_loadedTextures := m_loadedTextures s + 1\<rparr>)"
    by (simp add: load_texture_def cs)
  then show ?thesis
    using CreateGLTexture_no_Load [OF cs] by blast
qed

lemma upt_3: "[0..<nat 3] = [0, 1, 2]" "[0..<3] = [0, 1, 2]"
  by (simp_all add: upt_rec)

text \<open>
  \<^verbatim>\<open>PrepareScene\<close> on an object with both pointers set, no texture loaded yet, room for
  three textures and three decodable files.
\<close>

lemma PrepareScene_loaded:
  assumes ptr: "m_pShaderManager s0 \<noteq> NULL" "m_basicMeshes s0 \<noteq> NULL"
    and count: "m_loadedTextures s0 = 0" and room: "3 \<le> length (m_textureIDs s0)"
    and files: "decodable env brick_jpg" "decodable env breadcrust_jpg" "decodable env gold_jpg"
  shows "\<exists>mats up1 up2 up3.
           PrepareScene env s0
             = Some (light_calls @ load_meshes @ up1 @ up2 @ up3
                     @ [glActiveTexture 0, glBindTexture (new_texture_name env brick_jpg),
                        glActiveTexture 1, glBindTexture (new_texture_name env breadcrust_jpg),
                        glActiveTexture 2, glBindTexture (new_texture_name env gold_jpg)],
                     s0\<lparr>m_objectMaterials := mats,
                        m_textureIDs := (m_textureIDs s0)
                          [0 := \<lparr>ID = new_texture_name env brick_jpg, tag = ''floor''\<rparr>,
                           1 := \<lparr>ID = new_texture_name env breadcrust_jpg, tag = ''cone''\<rparr>,
                           2 := \<lparr>ID = new_texture_name env gold_jpg, tag = ''box''\<rparr>],
                        m_loadedTextures := 3\<rparr>)
           \<and> (\<forall>sh. count_list (up1 @ up2 @ up3) (Load sh) = 0)
           \<and> (\<forall>n. count_list (up1 @ up2 @ up3) (glDeleteTextures n) = 0)"
proof -
  obtain mats where mats: "exec define_materials s0 = Some ([], s0\<lparr>m_objectMaterials := mats\<rparr>)"
    using exec_define_materials by blast
  define s1 where "s1 = s0\<lparr>m_objectMaterials := mats\<rparr>"
  have s1: "m_pShaderManager s1 \<noteq> NULL" "m_basicMeshes s1 \<noteq> NULL" "m_loadedTextures s1 = 0"
    "m_textureIDs s1 = m_textureIDs s0"
    using ptr count by (simp_all add: s1_def)
  have len: "m_textureIDs s0 \<noteq> []" "Suc 0 < length (m_textureIDs s0)"
    "2 < length (m_textureIDs s0)"
    using room by auto
  define s2 where "s2 = s1\<lparr>m_textureIDs := (m_textureIDs s0)
      [0 := \<lparr>ID = new_texture_name env brick_jpg, tag = ''floor''\<rparr>], m_loadedTextures := 1\<rparr>"
  define s3 where "s3 = s2\<lparr>m_textureIDs := (m_textureIDs s2)
      [1 := \<lparr>ID = new_texture_name env breadcrust_jpg, tag = ''cone''\<rparr>], m_loadedTextures := 2\<rparr>"
  define s4 where "s4 = s3\<lparr>m_textureIDs := (m_textureIDs s3)
      [2 := \<lparr>ID = new_texture_name env gold_jpg, tag = ''box''\<rparr>], m_loadedTextures := 3\<rparr>"
  obtain up1 where up1: "load_texture env brick_jpg ''floor'' s1 = Some (up1, s2)"
    "\<forall>sh. count_list up1 (Load sh) = 0" "\<forall>n. count_list up1 (glDeleteTextures n) = 0"
    using load_texture_decodable [OF files(1), of s1 "''floor''"] s1 len
    by (auto simp add: s2_def)
  obtain up2 where up2: "load_texture env breadcrust_jpg ''cone'' s2 = Some (up2, s3)"
    "\<forall>sh. count_list up2 (Load sh) = 0" "\<forall>n. count_list up2 (glDeleteTextures n) = 0"
    using load_texture_decodable [OF files(2), of s2 "''cone''"] len
    by (auto simp add: s2_def s3_def)
  obtain up3 where up3: "load_texture env gold_jpg ''box'' s3 = Some (up3, s4)"
    "\<forall>sh. count_list up3 (Load sh) = 0" "\<forall>n. count_list up3 (glDeleteTextures n) = 0"
    using load_texture_decodable [OF files(3), of s3 "''box''"] len
    by (auto simp add: s2_def s3_def s4_def)
  have bind: "BindGLTextures s4
      = Some ([glActiveTexture 0, glBindTexture (new_texture_name env brick_jpg),
               glActiveTexture 1, glBindTexture (new_texture_name env breadcrust_jpg),
               glActiveTexture 2, glBindTexture (new_texture_name env gold_jpg)], s4)"
    using len by (simp add: BindGLTextures_def s4_def s3_def s2_def upt_3)
  have rest: "exec [via_shader light_calls, via_meshes load_meshes,
                    load_texture env brick_jpg ''floor'',
                    load_texture env breadcrust_jpg ''cone'',
                    load_texture env gold_jpg ''box'',
                    BindGLTextures] s1
      = Some (light_calls @ load_meshes @ up1 @ up2 @ up3
              @ [glActiveTexture 0, glBindTexture (new_texture_name env brick_jpg),
                 glActiveTexture 1, glBindTexture (new_texture_name env breadcrust_jpg),
                 glActiveTexture 2, glBindTexture (new_texture_name env gold_jpg)], s4)"
    using s1 by (simp add: via_shader_def via_meshes_def up1 up2 up3 bind)
  have s4: "s4 = s0\<lparr>m_objectMaterials := mats,
                        m_textureIDs := (m_textureIDs s0)
                          [0 := \<lparr>ID = new_texture_name env brick_jpg, tag = ''floor''\<rparr>,
                           1 := \<lparr>ID = new_texture_name env breadcrust_jpg, tag = ''cone''\<rparr>,
                           2 := \<lparr>ID = new_texture_name env gold_jpg, tag = ''box''\<rparr>],
                        m_loadedTextures := 3\<rparr>"
    by (simp add: s4_def s3_def s2_def s1_def)
  have "PrepareScene env s0
      = Some (light_calls @ load_meshes @ up1 @ up2 @ up3
              @ [glActiveTexture 0, glBindTexture (new_texture_name env brick_jpg),
                 glActiveTexture 1, glBindTexture (new_texture_name env breadcrust_jpg),
                 glActiveTexture 2, glBindTexture (new_texture_name env gold_jpg)], s4)"
    unfolding PrepareScene_def exec_append mats
    using rest
    by (simp add: s1_def brick_jpg_def breadcrust_jpg_def gold_jpg_def)
  then have prep: "PrepareScene env s0
      = Some (light_calls @ load_meshes @ up1 @ up2 @ up3
              @ [glActiveTexture 0, glBindTexture (new_texture_name env brick_jpg),
                 glActiveTexture 1, glBindTexture (new_texture_name env breadcrust_jpg),
                 glActiveTexture 2, glBindTexture (new_texture_name env gold_jpg)],
              s0\<lparr>m_objectMaterials := mats,
                 m_textureIDs := (m_textureIDs s0)
                   [0 := \<lparr>ID = new_texture_name env brick_jpg, tag = ''floor''\<rparr>,
                    1 := \<lparr>ID = new_texture_name env breadcrust_jpg, tag = ''cone''\<rparr>,
                    2 := \<lparr>ID = new_texture_name env gold_jpg, tag = ''box''\<rparr>],
                 m_loadedTextures := 3\<rparr>)"
    by (simp only: s4)
  have no_load: "\<forall>sh. count_list (up1 @ up2 @ up3) (Load sh) = 0"
    using up1(2) up2(2) up3(2) by simp
  have no_delete: "\<forall>n. count_list (up1 @ up2 @ up3) (glDeleteTextures n) = 0"
    using up1(3) up2(3) up3(3) by simp
  show ?thesis
    using prep no_load no_delete by blast
qed

lemma constructed_scene:
  "m_pShaderManager (SceneManager_constructor Allocated d) \<noteq> NULL"
  "m_basicMeshes (SceneManager_constructor Allocated d) \<noteq> NULL"
  "m_loadedTextures (SceneManager_constructor Allocated d) = m_loadedTextures d"
  "m_textureIDs (SceneManager_constructor Allocated d) = m_textureIDs d"
  by (simp_all add: SceneManager_constructor_def)

lemma count_light_calls: "count_list light_calls (Load sh) = 0"
  by (simp add: light_calls_def)

lemma count_load_meshes: "count_list load_meshes (Load sh) = 1"
  by (cases sh) (simp_all add: load_meshes_def)

lemma three_entries:
  assumes "3 \<le> length xs"
  obtains a b c rest where "xs = a # b # c # rest"
proof -
  from assms obtain a xs1 where 1: "xs = a # xs1"
    by (cases xs) auto
  with assms obtain b xs2 where 2: "xs1 = b # xs2"
    by (cases xs1) auto
  with 1 assms obtain c xs3 where "xs2 = c # xs3"
    by (cases xs2) auto
  with 1 2 that show thesis
    by simp
qed

text \<open>
  Startup followed by one \<^verbatim>\<open>RenderScene\<close>, for an object declared with no texture loaded
  and room for three, and three decodable texture files.
\<close>

lemma startup_render:
  assumes count: "m_loadedTextures declared = 0"
    and room: "3 \<le> length (m_textureIDs declared)"
    and files: "decodable env brick_jpg" "decodable env breadcrust_jpg" "decodable env gold_jpg"
  shows "\<exists>prep_calls before s calls.
           startup env declared = Some (prep_calls, s)
           \<and> (\<forall>sh. count_list prep_calls (Load sh) = 1)
           \<and> (\<forall>n. count_list prep_calls (glDeleteTextures n) = 0)
           \<and> prep_calls = before
               @ [glActiveTexture 0, glBindTexture (new_texture_name env brick_jpg),
                  glActiveTexture 1, glBindTexture (new_texture_name env breadcrust_jpg),
                  glActiveTexture 2, glBindTexture (new_texture_name env gold_jpg)]
           \<and> m_loadedTextures s = 3
           \<and> m_pShaderManager s = Allocated \<and> m_basicMeshes s = Allocated
           \<and> take 3 (m_textureIDs s)
               = [\<lparr>ID = new_texture_name env brick_jpg, tag = ''floor''\<rparr>,
                  \<lparr>ID = new_texture_name env breadcrust_jpg, tag = ''cone''\<rparr>,
                  \<lparr>ID = new_texture_name env gold_jpg, tag = ''box''\<rparr>]
           \<and> RenderScene s = Some (calls, s)
           \<and> drawn None None None calls
               = [textured PlaneMesh 0, textured ConeMesh 1, textured TorusMesh 1,
                  textured ConeMesh 1, textured ConeMesh 1, textured ConeMesh 1,
                  textured ConeMesh 1, textured ConeMesh 1, textured ConeMesh 1,
                  textured BoxMesh 2]"
proof -
  let ?s0 = "SceneManager_constructor Allocated declared"
  let ?binds = "[glActiveTexture 0, glBindTexture (new_texture_name env brick_jpg),
                 glActiveTexture 1, glBindTexture (new_texture_name env breadcrust_jpg),
                 glActiveTexture 2, glBindTexture (new_texture_name env gold_jpg)]"
  have c0: "m_loadedTextures ?s0 = 0" and r0: "3 \<le> length (m_textureIDs ?s0)"
    using count room by (simp_all add: constructed_scene)
  from PrepareScene_loaded [OF constructed_scene(1,2) c0 r0 files]
  obtain mats up1 up2 up3 where
    prep: "PrepareScene env ?s0
             = Some (light_calls @ load_meshes @ up1 @ up2 @ up3 @ ?binds,
                     ?s0\<lparr>m_objectMaterials := mats,
                        m_textureIDs := (m_textureIDs ?s0)
                          [0 := \<lparr>ID = new_texture_name env brick_jpg, tag = ''floor''\<rparr>,
                           1 := \<lparr>ID = new_texture_name env breadcrust_jpg, tag = ''cone''\<rparr>,
                           2 := \<lparr>ID = new_texture_name env gold_jpg, tag = ''box''\<rparr>],
                        m_loadedTextures := 3\<rparr>)"
    and no_load: "\<forall>sh. count_list (up1 @ up2 @ up3) (Load sh) = 0"
    and no_delete: "\<forall>n. count_list (up1 @ up2 @ up3) (glDeleteTextures n) = 0"
    by blast
  define s where "s = ?s0\<lparr>m_objectMaterials := mats,
                        m_textureIDs := (m_textureIDs ?s0)
                          [0 := \<lparr>ID = new_texture_name env brick_jpg, tag = ''floor''\<rparr>,
                           1 := \<lparr>ID = new_texture_name env breadcrust_jpg, tag = ''cone''\<rparr>,
                           2 := \<lparr>ID = new_texture_name env gold_jpg, tag = ''box''\<rparr>],
                        m_loadedTextures := 3\<rparr>"
  define prep_calls where "prep_calls = light_calls @ load_meshes @ up1 @ up2 @ up3 @ ?binds"
  have start: "startup env declared = Some (prep_calls, s)"
    using prep by (simp add: startup_def s_def prep_calls_def)
  have loads: "\<forall>sh. count_list prep_calls (Load sh) = 1"
    using no_load by (simp add: prep_calls_def count_light_calls count_load_meshes)
  have deletes: "\<forall>n. count_list prep_calls (glDeleteTextures n) = 0"
    using no_delete by (simp add: prep_calls_def light_calls_def load_meshes_def)
  have tail: "prep_calls = (light_calls @ load_meshes @ up1 @ up2 @ up3) @ ?binds"
    by (simp add: prep_calls_def)
  obtain e0 e1 e2 rest where arr: "m_textureIDs declared = e0 # e1 # e2 # rest"
    using room by (rule three_entries)
  have fields: "m_loadedTextures s = 3" "m_pShaderManager s = Allocated"
    "m_basicMeshes s = Allocated"
    by (simp_all add: s_def SceneManager_constructor_def)
  have table: "m_textureIDs s
      = \<lparr>ID = new_texture_name env brick_jpg, tag = ''floor''\<rparr>
        # \<lparr>ID = new_texture_name env breadcrust_jpg, tag = ''cone''\<rparr>
        # \<lparr>ID = new_texture_name env gold_jpg, tag = ''box''\<rparr> # rest"
    by (simp add: s_def constructed_scene arr)
  have slots: "FindTextureSlot s ''floor'' = Some 0" "FindTextureSlot s ''cone'' = Some 1"
    "FindTextureSlot s ''box'' = Some 2"
    by (simp_all add: FindTextureSlot_def fields table upt_3)
  have ptrs: "m_pShaderManager s \<noteq> NULL" "m_basicMeshes s \<noteq> NULL"
    by (simp_all add: fields)
  from RenderScene_drawn [OF ptrs slots] obtain calls where
    render: "RenderScene s = Some (calls, s)"
    "drawn None None None calls
       = [textured PlaneMesh 0, textured ConeMesh 1, textured TorusMesh 1,
          textured ConeMesh 1, textured ConeMesh 1, textured ConeMesh 1,
          textured ConeMesh 1, textured ConeMesh 1, textured ConeMesh 1,
          textured BoxMesh 2]"
    by blast
  have top: "take 3 (m_textureIDs s)
               = [\<lparr>ID = new_texture_name env brick_jpg, tag = ''floor''\<rparr>,
                  \<lparr>ID = new_texture_name env breadcrust_jpg, tag = ''cone''\<rparr>,
                  \<lparr>ID = new_texture_name env gold_jpg, tag = ''box''\<rparr>]"
    by (simp add: table numeral_3_eq_3)
  show ?thesis
    using start loads deletes tail fields top render by blast
qed

lemma example_startup_inputs:
  "m_loadedTextures example_declared = 0" "3 \<le> length (m_textureIDs example_declared)"
  "decodable example_loader brick_jpg" "decodable example_loader breadcrust_jpg"
  "decodable example_loader gold_jpg"
  "new_texture_name example_loader brick_jpg = 1"
  "new_texture_name example_loader breadcrust_jpg = 2"
  "new_texture_name example_loader gold_jpg = 3"
  by (simp_all add: example_declared_def example_loader_def decodable_def brick_jpg_def
      breadcrust_jpg_def gold_jpg_def)

lemma example_startup_render:
  "m_loadedTextures (scene_after_startup example_loader example_declared) = 3"
  "m_basicMeshes (scene_after_startup example_loader example_declared) = Allocated"
  "take 3 (m_textureIDs (scene_after_startup example_loader example_declared))
     = [\<lparr>ID = 1, tag = ''floor''\<rparr>, \<lparr>ID = 2, tag = ''cone''\<rparr>, \<lparr>ID = 3, tag = ''box''\<rparr>]"
  "drawn None None None (render_calls (scene_after_startup example_loader example_declared))
     = [textured PlaneMesh 0, textured ConeMesh 1, textured TorusMesh 1,
        textured ConeMesh 1, textured ConeMesh 1, textured ConeMesh 1,
        textured ConeMesh 1, textured ConeMesh 1, textured ConeMesh 1,
        textured BoxMesh 2]"
proof -
  from startup_render [OF example_startup_inputs(1-5)]
  obtain prep_calls before s calls where
    start: "startup example_loader example_declared = Some (prep_calls, s)"
    and fields: "m_loadedTextures s = 3" "m_basicMeshes s = Allocated"
    and top: "take 3 (m_textureIDs s)
               = [\<lparr>ID = new_texture_name example_loader brick_jpg, tag = ''floor''\<rparr>,
                  \<lparr>ID = new_texture_name example_loader breadcrust_jpg, tag = ''cone''\<rparr>,
                  \<lparr>ID = new_texture_name example_loader gold_jpg, tag = ''box''\<rparr>]"
    and render: "RenderScene s = Some (calls, s)"
    and scene: "drawn None None None calls
       = [textured PlaneMesh 0, textured ConeMesh 1, textured TorusMesh 1,
          textured ConeMesh 1, textured ConeMesh 1, textured ConeMesh 1,
          textured ConeMesh 1, textured ConeMesh 1, textured ConeMesh 1,
          textured BoxMesh 2]"
    by blast
  have s: "scene_after_startup example_loader example_declared = s"
    by (simp add: scene_after_startup_def start)
  have r: "render_calls s = calls"
    by (simp add: render_calls_def render)
  show "m_loadedTextures (scene_after_startup example_loader example_declared) = 3"
    unfolding s by (rule fields)
  show "m_basicMeshes (scene_after_startup example_loader example_declared) = Allocated"
    unfolding s by (rule fields)
  show "take 3 (m_textureIDs (scene_after_startup example_loader example_declared))
     = [\<lparr>ID = 1, tag = ''floor''\<rparr>, \<lparr>ID = 2, tag = ''cone''\<rparr>, \<lparr>ID = 3, tag = ''box''\<rparr>]"
    unfolding s top by (simp add: example_startup_inputs)
  show "drawn None None None (render_calls (scene_after_startup example_loader example_declared))
     = [textured PlaneMesh 0, textured ConeMesh 1, textured TorusMesh 1,
        textured ConeMesh 1, textured ConeMesh 1, textured ConeMesh 1,
        textured ConeMesh 1, textured ConeMesh 1, textured ConeMesh 1,
        textured BoxMesh 2]"
    unfolding s r by (rule scene)
qed

lemma fst_textured: "fst (textured sh k) = sh"
  by (simp add: textured_def)

text \<open>
  Claim C4, as stated, fails on the number of cones: after a startup in which the three
  texture files decode, \<^verbatim>\<open>RenderScene\<close> draws the cone mesh seven times (the centre cone
  and three rows of two), not six.
\<close>

theorem six_cones_counterexample:
  "count_list
     (map fst (drawn None None None
        (render_calls (scene_after_startup example_loader example_declared))))
     ConeMesh = 7
   \<and> count_list
     (map fst (drawn None None None
        (render_calls (scene_after_startup example_loader example_declared))))
     ConeMesh \<noteq> 6"
  unfolding example_startup_render(4)
  by (simp add: fst_textured)


text \<open>
  Claim C4, amended. After a startup from an object declared with no texture loaded and
  room for three, in which the three texture files decode, \<^verbatim>\<open>PrepareScene\<close> has loaded
  each of the plane, cone, torus and box meshes exactly once, has registered the floor,
  cone and box textures in slots 0, 1 and 2 and has bound them to the texture units 0, 1
  and 2. Every \<^verbatim>\<open>RenderScene\<close> on that object then draws, in this order and each with
  texturing on and UV scale 4 x 4: one plane with the floor texture, one cone and one torus
  with the cone texture, six more cones with the cone texture (seven cones in all), and one
  box with the box texture; and it leaves the object unchanged.
\<close>

theorem scene_contents:
  assumes "m_loadedTextures declared = 0"
    and "3 \<le> length (m_textureIDs declared)"
    and "decodable env brick_jpg" "decodable env breadcrust_jpg" "decodable env gold_jpg"
  shows "\<exists>prep_calls before s calls.
           startup env declared = Some (prep_calls, s)
           \<and> count_list prep_calls (Load PlaneMesh) = 1
           \<and> count_list prep_calls (Load ConeMesh) = 1
           \<and> count_list prep_calls (Load TorusMesh) = 1
           \<and> count_list prep_calls (Load BoxMesh) = 1
           \<and> prep_calls = before
               @ [glActiveTexture 0, glBindTexture (new_texture_name env brick_jpg),
                  glActiveTexture 1, glBindTexture (new_texture_name env breadcrust_jpg),
                  glActiveTexture 2, glBindTexture (new_texture_name env gold_jpg)]
           \<and> m_loadedTextures s = 3
           \<and> take 3 (m_textureIDs s)
               = [\<lparr>ID = new_texture_name env brick_jpg, tag = ''floor''\<rparr>,
                  \<lparr>ID = new_texture_name env breadcrust_jpg, tag = ''cone''\<rparr>,
                  \<lparr>ID = new_texture_name env gold_jpg, tag = ''box''\<rparr>]
           \<and> RenderScene s = Some (calls, s)
           \<and> drawn None None None calls
               = [(PlaneMesh, Some 1, Some 0, Some (4, 4)),
                  (ConeMesh, Some 1, Some 1, Some (4, 4)),
                  (TorusMesh, Some 1, Some 1, Some (4, 4)),
                  (ConeMesh, Some 1, Some 1, Some (4, 4)),
                  (ConeMesh, Some 1, Some 1, Some (4, 4)),
                  (ConeMesh, Some 1, Some 1, Some (4, 4)),
                  (ConeMesh, Some 1, Some 1, Some (4, 4)),
                  (ConeMesh, Some 1, Some 1, Some (4, 4)),
                  (ConeMesh, Some 1, Some 1, Some (4, 4)),
                  (BoxMesh, Some 1, Some 2, Some (4, 4))]
           \<and> count_list (map fst (drawn None None None calls)) ConeMesh = 7"
proof -
  from startup_render [OF assms]
  obtain prep_calls before s calls where
    start: "startup env declared = Some (prep_calls, s)"
    and loads: "\<forall>sh. count_list prep_calls (Load sh) = 1"
    and tail: "prep_calls = before
               @ [glActiveTexture 0, glBindTexture (new_texture_name env brick_jpg),
                  glActiveTexture 1, glBindTexture (new_texture_name env breadcrust_jpg),
                  glActiveTexture 2, glBindTexture (new_texture_name env gold_jpg)]"
    and count: "m_loadedTextures s = 3"
    and top: "take 3 (m_textureIDs s)
               = [\<lparr>ID = new_texture_name env brick_jpg, tag = ''floor''\<rparr>,
                  \<lparr>ID = new_texture_name env breadcrust_jpg, tag = ''cone''\<rparr>,
                  \<lparr>ID = new_texture_name env gold_jpg, tag = ''box''\<rparr>]"
    and render: "RenderScene s = Some (calls, s)"
    and scene: "drawn None None None calls
       = [textured PlaneMesh 0, textured ConeMesh 1, textured TorusMesh 1,
          textured ConeMesh 1, textured ConeMesh 1, textured ConeMesh 1,
          textured ConeMesh 1, textured ConeMesh 1, textured ConeMesh 1,
          textured BoxMesh 2]"
    by blast
  have scene': "drawn None None None calls
               = [(PlaneMesh, Some 1, Some 0, Some (4, 4)),
                  (ConeMesh, Some 1, Some 1, Some (4, 4)),
                  (TorusMesh, Some 1, Some 1, Some (4, 4)),
                  (ConeMesh, Some 1, Some 1, Some (4, 4)),
                  (ConeMesh, Some 1, Some 1, Some (4, 4)),
                  (ConeMesh, Some 1, Some 1, Some (4, 4)),
                  (ConeMesh, Some 1, Some 1, Some (4, 4)),
                  (ConeMesh, Some 1, Some 1, Some (4, 4)),
                  (ConeMesh, Some 1, Some 1, Some (4, 4)),
                  (BoxMesh, Some 1, Some 2, Some (4, 4))]"
    using scene by (simp add: textured_def)
  have cones: "count_list (map fst (drawn None None None calls)) ConeMesh = 7"
    by (simp add: scene')
  have l: "count_list prep_calls (Load PlaneMesh) = 1" "count_list prep_calls (Load ConeMesh) = 1"
    "count_list prep_calls (Load TorusMesh) = 1" "count_list prep_calls (Load BoxMesh) = 1"
    using loads by simp_all
  show ?thesis
    using start l tail count top render scene' cones by blast
qed

theorem scene_contents_witness:
  "m_loadedTextures example_declared = 0
   \<and> 3 \<le> length (m_textureIDs example_declared)
   \<and> decodable example_loader brick_jpg \<and> decodable example_loader breadcrust_jpg
   \<and> decodable example_loader gold_jpg
   \<and> (\<exists>prep_calls before s calls.
         startup example_loader example_declared = Some (prep_calls, s)
         \<and> count_list prep_calls (Load ConeMesh) = 1
         \<and> prep_calls = before
             @ [glActiveTexture 0, glBindTexture 1, glActiveTexture 1, glBindTexture 2,
                glActiveTexture 2, glBindTexture 3]
         \<and> take 3 (m_textureIDs s)
             = [\<lparr>ID = 1, tag = ''floor''\<rparr>, \<lparr>ID = 2, tag = ''cone''\<rparr>, \<lparr>ID = 3, tag = ''box''\<rparr>]
         \<and> RenderScene s = Some (calls, s)
         \<and> count_list (map fst (drawn None None None calls)) ConeMesh = 7)"
proof -
  note t = scene_contents [OF example_startup_inputs(1-5)]
  from t obtain prep_calls before s calls where
    "startup example_loader example_declared = Some (prep_calls, s)"
    "count_list prep_calls (Load ConeMesh) = 1"
    "prep_calls = before
       @ [glActiveTexture 0, glBindTexture (new_texture_name example_loader brick_jpg),
          glActiveTexture 1, glBindTexture (new_texture_name example_loader breadcrust_jpg),
          glActiveTexture 2, glBindTexture (new_texture_name example_loader gold_jpg)]"
    "take 3 (m_textureIDs s)
       = [\<lparr>ID = new_texture_name example_loader brick_jpg, tag = ''floor''\<rparr>,
          \<lparr>ID = new_texture_name example_loader breadcrust_jpg, tag = ''cone''\<rparr>,
          \<lparr>ID = new_texture_name example_loader gold_jpg, tag = ''box''\<rparr>]"
    "RenderScene s = Some (calls, s)"
    "count_list (map fst (drawn None None None calls)) ConeMesh = 7"
    by blast
  then have "\<exists>prep_calls before s calls.
         startup example_loader example_declared = Some (prep_calls, s)
         \<and> count_list prep_calls (Load ConeMesh) = 1
         \<and> prep_calls = before
             @ [glActiveTexture 0, glBindTexture 1, glActiveTexture 1, glBindTexture 2,
                glActiveTexture 2, glBindTexture 3]
         \<and> take 3 (m_textureIDs s)
             = [\<lparr>ID = 1, tag = ''floor''\<rparr>, \<lparr>ID = 2, tag = ''cone''\<rparr>, \<lparr>ID = 3, tag = ''box''\<rparr>]
         \<and> RenderScene s = Some (calls, s)
         \<and> count_list (map fst (drawn None None None calls)) ConeMesh = 7"
    unfolding example_startup_inputs(6-8) by blast
  then show ?thesis
    using example_startup_inputs(1-5) by blast
qed

section \<open>Shutdown\<close>

lemma shutdown_never_deletes:
  "count_list (fst (shutdown s)) (glDeleteTextures n) = 0
   \<and> m_loadedTextures (snd (shutdown s)) = m_loadedTextures s
   \<and> m_textureIDs (snd (shutdown s)) = m_textureIDs s"
  by (simp add: shutdown_def SceneManager_destructor_def Let_def)

lemma DestroyGLTextures_three:
  assumes "m_loadedTextures s = 3" "take 3 (m_textureIDs s) = [a, b, c]"
  shows "DestroyGLTextures s
         = Some ([glDeleteTextures (ID a), glDeleteTextures (ID b), glDeleteTextures (ID c)],
                 s\<lparr>m_loadedTextures := 0\<rparr>)"
proof -
  from assms(2) have len: "3 \<le> length (m_textureIDs s)"
    by (metis length_take min.cobounded1 length_Cons list.size(3) numeral_3_eq_3)
  then obtain e0 e1 e2 rest where arr: "m_textureIDs s = e0 # e1 # e2 # rest"
    by (rule three_entries)
  with assms(2) have "e0 = a" "e1 = b" "e2 = c"
    by (simp_all add: numeral_3_eq_3)
  with arr show ?thesis
    by (simp add: DestroyGLTextures_def assms(1) upt_3)
qed

text \<open>
  Claim C5, evaluated on the code. After a startup that loaded the three textures (names
  1, 2, 3), the part of \<^verbatim>\<open>main\<close> after the loop makes three calls, the deletions of the
  mesh object, the view manager and the shader manager; none of them is
  \<^verbatim>\<open>glDeleteTextures\<close>, and the texture count of the scene manager is still 3 when the
  object is gone. \<^verbatim>\<open>DestroyGLTextures\<close>, which would delete the three textures and reset
  the count, is not called.
\<close>

theorem shutdown_keeps_textures:
  "m_loadedTextures (scene_after_startup example_loader example_declared) = 3
   \<and> map ID (take 3 (m_textureIDs (scene_after_startup example_loader example_declared)))
       = [1, 2, 3]
   \<and> fst (shutdown (scene_after_startup example_loader example_declared))
       = [delete_ShapeMeshes, delete_ViewManager, delete_ShaderManager]
   \<and> m_loadedTextures (snd (shutdown (scene_after_startup example_loader example_declared))) = 3
   \<and> DestroyGLTextures (scene_after_startup example_loader example_declared)
       = Some ([glDeleteTextures 1, glDeleteTextures 2, glDeleteTextures 3],
               (scene_after_startup example_loader example_declared)\<lparr>m_loadedTextures := 0\<rparr>)"
proof -
  let ?s = "scene_after_startup example_loader example_declared"
  note count = example_startup_render(1) and meshes = example_startup_render(2)
    and top = example_startup_render(3)
  have ids: "map ID (take 3 (m_textureIDs ?s)) = [1, 2, 3]"
    by (simp add: top)
  have calls: "fst (shutdown ?s) = [delete_ShapeMeshes, delete_ViewManager, delete_ShaderManager]"
    by (simp add: shutdown_def SceneManager_destructor_def Let_def meshes)
  have after: "m_loadedTextures (snd (shutdown ?s)) = 3"
    using shutdown_never_deletes [of ?s] count by simp
  have destroy: "DestroyGLTextures ?s
       = Some ([glDeleteTextures 1, glDeleteTextures 2, glDeleteTextures 3],
               ?s\<lparr>m_loadedTextures := 0\<rparr>)"
    using DestroyGLTextures_three [OF count top] by simp
  show ?thesis
    using count ids calls after destroy by blast
qed

section \<open>The projection toggle\<close>

text \<open>
  The P key as the frames sample it, and the number of presses in such a sequence of
  samples: a press begins at a sample where the key is down and was up at the sample
  before (\<open>held\<close> tells whether it was down before the first sample).
\<close>

fun p_samples :: "event list \<Rightarrow> bool list" where
  "p_samples [] = []"
| "p_samples (Frame w currentFrame # evs) = (w GLFW_KEY_P = GLFW_PRESS) # p_samples evs"
| "p_samples (CursorPos xpos ypos # evs) = p_samples evs"
| "p_samples (Scroll xoffset yoffset # evs) = p_samples evs"

fun presses :: "bool \<Rightarrow> bool list \<Rightarrow> nat" where
  "presses held [] = 0"
| "presses held (down # rest) = (if down \<and> \<not> held then 1 else 0) + presses down rest"

text \<open>
  The value a uniform has after a sequence of calls: that of the last call setting it,
  if there is one.
\<close>

fun uniform_after :: "string \<Rightarrow> call list \<Rightarrow> uniform_value option" where
  "uniform_after name [] = None"
| "uniform_after name (ShaderSet n v # cs) =
     (case uniform_after name cs of
        Some v' \<Rightarrow> Some v'
      | None \<Rightarrow> (if n = name then Some v else None))"
| "uniform_after name (c # cs) = uniform_after name cs"

definition keys_P :: window where
  "keys_P k = (if k = GLFW_KEY_P then GLFW_PRESS else GLFW_RELEASE)"

definition keys_none :: window where
  "keys_none k = GLFW_RELEASE"

lemma processInput_toggle:
  "useOrtho (processInput w g)
     = (if w GLFW_KEY_P = GLFW_PRESS \<and> \<not> pKeyPressed g then \<not> useOrtho g else useOrtho g)"
  "pKeyPressed (processInput w g) = (w GLFW_KEY_P = GLFW_PRESS)"
  by (cases "w GLFW_KEY_P";
      simp add: processInput_def move_keys_eq key_P_press_def key_P_release_def
        key_ESCAPE_fields)+

lemma begin_frame_toggle:
  "useOrtho (begin_frame w t g)
     = (if w GLFW_KEY_P = GLFW_PRESS \<and> \<not> pKeyPressed g then \<not> useOrtho g else useOrtho g)"
  "pKeyPressed (begin_frame w t g) = (w GLFW_KEY_P = GLFW_PRESS)"
  by (simp_all add: begin_frame_def processInput_toggle)

lemma scroll_callback_toggle:
  "useOrtho (scroll_callback g x y) = useOrtho g"
  "pKeyPressed (scroll_callback g x y) = pKeyPressed g"
  by (simp_all add: scroll_callback_def Let_def)

lemma run_toggle:
  "useOrtho (run g evs)
     = (if even (presses (pKeyPressed g) (p_samples evs)) then useOrtho g else \<not> useOrtho g)"
proof (induction evs arbitrary: g)
  case Nil
  show ?case by (simp add: run_def)
next
  case (Cons e evs)
  have unfold: "run g (e # evs) = run (step g e) evs"
    by (simp add: run_def)
  show ?case
  proof (cases e)
    case (Frame w t)
    then show ?thesis
      unfolding unfold Cons.IH by (simp add: begin_frame_toggle)
  next
    case (CursorPos x y)
    then show ?thesis
      unfolding unfold Cons.IH by (simp add: mouse_callback_fields)
  next
    case (Scroll x y)
    then show ?thesis
      unfolding unfold Cons.IH by (simp add: scroll_callback_toggle)
  qed
qed

lemma uniform_after_append:
  "uniform_after name (xs @ ys)
     = (case uniform_after name ys of Some v \<Rightarrow> Some v | None \<Rightarrow> uniform_after name xs)"
proof (induction xs)
  case Nil
  show ?case by (simp split: option.splits)
next
  case (Cons c xs)
  then show ?case
    by (cases c) (simp_all split: option.splits)
qed

definition leaves_projection :: "member_function \<Rightarrow> bool" where
  "leaves_projection m =
     (\<forall>s out s'. m s = Some (out, s') \<longrightarrow> uniform_after ''projection'' out = None)"

lemma exec_leaves_projection:
  assumes "\<forall>m \<in> set ms. leaves_projection m"
  shows "leaves_projection (exec ms)"
  using assms
proof (induction ms)
  case Nil
  show ?case by (simp add: leaves_projection_def)
next
  case (Cons m ms)
  then have m: "leaves_projection m" and ms: "leaves_projection (exec ms)"
    by simp_all
  show ?case
    unfolding leaves_projection_def
  proof (intro allI impI)
    fix s out s'
    assume run: "exec (m # ms) s = Some (out, s')"
    then obtain out1 s1 where 1: "m s = Some (out1, s1)"
      by (cases "m s") auto
    with run obtain out2 where 2: "exec ms s1 = Some (out2, s')" and out: "out = out1 @ out2"
      by (cases "exec ms s1") auto
    from 1 m have "uniform_after ''projection'' out1 = None"
      unfolding leaves_projection_def by blast
    moreover from 2 ms have "uniform_after ''projection'' out2 = None"
      unfolding leaves_projection_def by blast
    ultimately show "uniform_after ''projection'' out = None"
      by (simp add: out uniform_after_append)
  qed
qed

lemma leaves_projection_parts:
  "leaves_projection (SetTransformations sc xr yr zr pos)"
  "leaves_projection (SetTextureUVScale u v)"
  "leaves_projection (SetShaderTexture t)"
  "leaves_projection (via_meshes [Draw sh])"
  by (auto simp add: leaves_projection_def SetTransformations_def SetTextureUVScale_def
      SetShaderTexture_def if_shader_def via_meshes_def g_ModelName_def g_UseTextureName_def
      g_TextureValueName_def split: if_splits option.splits)

lemma RenderScene_leaves_projection: "leaves_projection RenderScene"
  unfolding RenderScene_def Let_def draw_object_def
  by (rule exec_leaves_projection) (simp add: leaves_projection_parts)

lemma render_frame_projection:
  assumes "render_frame pv g s = Some (calls, s')"
  shows "uniform_after ''projection'' calls = Some (Mat4Value (projection_matrix g))"
proof -
  from assms obtain scene_calls where
    scene: "RenderScene s = Some (scene_calls, s')"
    and calls: "calls = [glEnable_DEPTH_TEST, glClearColor 0 0 0 1, glClear_COLOR_DEPTH] @ pv
                @ [ShaderSet ''view'' (Mat4Value (view_matrix g)),
                   ShaderSet ''projection'' (Mat4Value (projection_matrix g))]
                @ scene_calls @ [glfwSwapBuffers]"
    by (auto simp add: render_frame_def split: option.splits)
  have "uniform_after ''projection'' scene_calls = None"
    using RenderScene_leaves_projection scene unfolding leaves_projection_def by blast
  then show ?thesis
    unfolding calls by (simp add: uniform_after_append)
qed

lemma projection_matrix_eq:
  "projection_matrix g
     = (if useOrtho g then glm_ortho (- (40 / 3)) (40 / 3) (- 10) 10 (1 / 10) 100
        else glm_perspective (glm_radians (fov g)) (4 / 3) (1 / 10) 100)"
  by (simp add: projection_matrix_def Let_def)

lemma ortho_not_perspective:
  "glm_ortho l r b t n f \<noteq> glm_perspective fovy aspect zNear zFar"
  by (simp add: glm_ortho_def glm_perspective_def Let_def)

text \<open>
  Claim C3. At each frame the projection mode flips exactly when P is down and was up at
  the frame before, and the latch \<^verbatim>\<open>pKeyPressed\<close> records whether P is down; so over any
  run of the program the mode has flipped once per press of P, however long each press is
  held. In every iteration of the main loop the uniform "projection" is left holding the
  orthographic matrix for the box [-40/3, 40/3] x [-10, 10] x [0.1, 100] when the mode is
  orthographic, and otherwise the perspective matrix for the current field of view, aspect
  800/600, near 0.1 and far 100; the two matrices are never equal.
\<close>

theorem projection_toggle:
  "useOrtho (begin_frame w t g)
     = (if w GLFW_KEY_P = GLFW_PRESS \<and> \<not> pKeyPressed g then \<not> useOrtho g else useOrtho g)
   \<and> pKeyPressed (begin_frame w t g) = (w GLFW_KEY_P = GLFW_PRESS)
   \<and> useOrtho (run g evs)
     = (if even (presses (pKeyPressed g) (p_samples evs)) then useOrtho g else \<not> useOrtho g)
   \<and> (\<forall>calls g' s'. loop_iteration w t pv (g, s) = Some (calls, g', s') \<longrightarrow>
        g' = begin_frame w t g
        \<and> uniform_after ''projection'' calls
            = Some (Mat4Value
                (if useOrtho g' then glm_ortho (- (40 / 3)) (40 / 3) (- 10) 10 (1 / 10) 100
                 else glm_perspective (glm_radians (fov g')) (4 / 3) (1 / 10) 100)))
   \<and> glm_ortho (- (40 / 3)) (40 / 3) (- 10) 10 (1 / 10) 100
       \<noteq> glm_perspective (glm_radians fv) (4 / 3) (1 / 10) 100"
proof -
  have frame: "\<forall>calls g' s'. loop_iteration w t pv (g, s) = Some (calls, g', s') \<longrightarrow>
        g' = begin_frame w t g
        \<and> uniform_after ''projection'' calls
            = Some (Mat4Value
                (if useOrtho g' then glm_ortho (- (40 / 3)) (40 / 3) (- 10) 10 (1 / 10) 100
                 else glm_perspective (glm_radians (fov g')) (4 / 3) (1 / 10) 100))"
  proof (intro allI impI)
    fix calls g' s'
    assume "loop_iteration w t pv (g, s) = Some (calls, g', s')"
    then have g': "g' = begin_frame w t g"
      and r: "render_frame pv (begin_frame w t g) s = Some (calls, s')"
      by (auto simp add: loop_iteration_def Let_def split: option.splits)
    show "g' = begin_frame w t g
        \<and> uniform_after ''projection'' calls
            = Some (Mat4Value
                (if useOrtho g' then glm_ortho (- (40 / 3)) (40 / 3) (- 10) 10 (1 / 10) 100
                 else glm_perspective (glm_radians (fov g')) (4 / 3) (1 / 10) 100))"
      using render_frame_projection [OF r] g'
      by (simp only: projection_matrix_eq simp_thms)
  qed
  show ?thesis
    using begin_frame_toggle [of w t g] run_toggle [of g evs] frame
      ortho_not_perspective [of "- (40 / 3)" "40 / 3" "- 10" 10 "1 / 10" 100
        "glm_radians fv" "4 / 3" "1 / 10" 100]
    by blast
qed


theorem projection_toggle_witness:
  "(\<exists>calls s'. loop_iteration keys_P 1 [] (initial_globals, example_scene)
        = Some (calls, begin_frame keys_P 1 initial_globals, s')
      \<and> uniform_after ''projection'' calls
          = Some (Mat4Value (glm_ortho (- (40 / 3)) (40 / 3) (- 10) 10 (1 / 10) 100)))
   \<and> useOrtho (begin_frame keys_P 1 initial_globals)
   \<and> useOrtho (run initial_globals [Frame keys_P 1, Frame keys_P 2, Frame keys_P 3])
   \<and> \<not> useOrtho (run initial_globals
        [Frame keys_P 1, Frame keys_P 2, Frame keys_none 3, CursorPos 10 10, Frame keys_P 4])"
proof -
  note t = projection_toggle [of keys_P 1 initial_globals _ "[]" example_scene]
  have ptrs: "m_pShaderManager example_scene \<noteq> NULL" "m_basicMeshes example_scene \<noteq> NULL"
    by (simp_all add: example_scene_def)
  obtain scene_calls where r: "RenderScene example_scene = Some (scene_calls, example_scene)"
    using RenderScene_drawn [OF ptrs example_scene_slots] by blast
  define calls where "calls = [glEnable_DEPTH_TEST, glClearColor 0 0 0 1, glClear_COLOR_DEPTH]
      @ [] @ [ShaderSet ''view'' (Mat4Value (view_matrix (begin_frame keys_P 1 initial_globals))),
              ShaderSet ''projection''
                (Mat4Value (projection_matrix (begin_frame keys_P 1 initial_globals)))]
      @ scene_calls @ [glfwSwapBuffers]"
  have it: "loop_iteration keys_P 1 [] (initial_globals, example_scene)
              = Some (calls, begin_frame keys_P 1 initial_globals, example_scene)"
    by (simp add: loop_iteration_def render_frame_def r calls_def Let_def)
  have on: "useOrtho (begin_frame keys_P 1 initial_globals)"
    using t [of "[]" 0] by (simp add: keys_P_def initial_globals_def)
  have "uniform_after ''projection'' calls
          = Some (Mat4Value
                (if useOrtho (begin_frame keys_P 1 initial_globals)
                 then glm_ortho (- (40 / 3)) (40 / 3) (- 10) 10 (1 / 10) 100
                 else glm_perspective (glm_radians (fov (begin_frame keys_P 1 initial_globals)))
                        (4 / 3) (1 / 10) 100))"
    using t [of "[]" 0] it by blast
  then have u: "uniform_after ''projection'' calls
          = Some (Mat4Value (glm_ortho (- (40 / 3)) (40 / 3) (- 10) 10 (1 / 10) 100))"
    using on by simp
  have held: "useOrtho (run initial_globals [Frame keys_P 1, Frame keys_P 2, Frame keys_P 3])"
    using projection_toggle [of keys_P 1 initial_globals
        "[Frame keys_P 1, Frame keys_P 2, Frame keys_P 3]" "[]" example_scene 0]
    by (simp add: keys_P_def initial_globals_def)
  have twice: "\<not> useOrtho (run initial_globals
        [Frame keys_P 1, Frame keys_P 2, Frame keys_none 3, CursorPos 10 10, Frame keys_P 4])"
    using projection_toggle [of keys_P 1 initial_globals
        "[Frame keys_P 1, Frame keys_P 2, Frame keys_none 3, CursorPos 10 10, Frame keys_P 4]"
        "[]" example_scene 0]
    by (simp add: keys_P_def keys_none_def initial_globals_def)
  show ?thesis
    using it u on held twice by blast
qed

end
